theory Spec2Isabelle
  imports Complex_Main "HOL-Library.Sublist"
begin

section \<open>Python values and strings\<close>

text \<open>
  A Python \<^verbatim>\<open>str\<close> is modelled as a \<^typ>\<open>string\<close>: a list of characters, each read as
  a code point below 256. \<^verbatim>\<open>len\<close> is \<^const>\<open>length\<close>.

  \<^verbatim>\<open>str.isdigit\<close> is true of a non-empty string all of whose characters are digits
  in Python's sense. Below 256 these are the ASCII digits and the three superscripts
  U+00B2, U+00B3 and U+00B9.
\<close>

definition isdigit_char :: "char \<Rightarrow> bool" where
  "isdigit_char c =
     (c \<in> set ''0123456789'' \<or> c = CHR 0xB2 \<or> c = CHR 0xB3 \<or> c = CHR 0xB9)"

definition isdigit :: "string \<Rightarrow> bool" where
  "isdigit s = (s \<noteq> [] \<and> list_all isdigit_char s)"

text \<open>
  \<^verbatim>\<open>str.zfill(width)\<close>: a string of at least \<open>width\<close> characters is returned as it is;
  a shorter one is filled with \<open>'0'\<close> on the left, after a leading sign if it has one.
\<close>

definition zfill :: "string \<Rightarrow> nat \<Rightarrow> string" where
  "zfill s width =
     (if width \<le> length s then s
      else (case s of
              [] \<Rightarrow> replicate width (CHR ''0'')
            | c # cs \<Rightarrow>
                if c = CHR ''+'' \<or> c = CHR ''-''
                then c # replicate (width - length s) (CHR ''0'') @ cs
                else replicate (width - length s) (CHR ''0'') @ s))"

text \<open>
  Lines 155-156 of \<^verbatim>\<open>update_occupation.py\<close>, for an occupation key that is a string:
  \<^verbatim>\<open>
  if occupation_value.isdigit() and len(occupation_value) < 3:
      occupation_value = occupation_value.zfill(3)
  \<close>
\<close>

definition normalize_occupation_value :: "string \<Rightarrow> string" where
  "normalize_occupation_value occupation_value =
     (if isdigit occupation_value \<and> length occupation_value < 3
      then zfill occupation_value 3
      else occupation_value)"

section \<open>Exceptions\<close>

text \<open>
  A Python exception is a value: its class and the text \<^verbatim>\<open>str(e)\<close> gives. Every class
  below derives from \<^verbatim>\<open>Exception\<close>. \<open>JSONDecodeError\<close> is the one of the requests
  library (2.27 and later), which derives from both \<^verbatim>\<open>RequestException\<close> and
  \<^verbatim>\<open>ValueError\<close>; before that version \<^verbatim>\<open>response.json()\<close> raises a plain
  \<^verbatim>\<open>ValueError\<close>. \<open>ConfigParserError\<close> stands for the classes of
  \<^verbatim>\<open>configparser.Error\<close>.
\<close>

datatype exn =
    Exception string
  | ValueError string
  | FileNotFoundError string
  | KeyError string
  | TypeError string
  | AttributeError string
  | ConfigParserError string
  | RequestException string
  | JSONDecodeError string

fun str_exn :: "exn \<Rightarrow> string" where
  "str_exn (Exception m) = m"
| "str_exn (ValueError m) = m"
| "str_exn (FileNotFoundError m) = m"
| "str_exn (KeyError m) = m"
| "str_exn (TypeError m) = m"
| "str_exn (AttributeError m) = m"
| "str_exn (ConfigParserError m) = m"
| "str_exn (RequestException m) = m"
| "str_exn (JSONDecodeError m) = m"

fun is_ValueError :: "exn \<Rightarrow> bool" where
  "is_ValueError (ValueError m) = True"
| "is_ValueError (JSONDecodeError m) = True"
| "is_ValueError e = False"

fun is_RequestException :: "exn \<Rightarrow> bool" where
  "is_RequestException (RequestException m) = True"
| "is_RequestException (JSONDecodeError m) = True"
| "is_RequestException e = False"

fun is_FileNotFoundError :: "exn \<Rightarrow> bool" where
  "is_FileNotFoundError (FileNotFoundError m) = True"
| "is_FileNotFoundError e = False"

section \<open>Values\<close>

text \<open>
  The values a CSV cell read by pandas, a decoded JSON body and a request payload are
  made of. A dictionary is an association list with distinct string keys, read with
  \<^const>\<open>map_of\<close>. A float is its value, or one of the three non-numbers.
\<close>

datatype pyfloat = Finite real | NaN | PosInf | NegInf

datatype pyval =
    PNone
  | PBool bool
  | PInt int
  | PFloat pyfloat
  | PStr string
  | PList "pyval list"
  | PDict "(string \<times> pyval) list"

fun type_name :: "pyval \<Rightarrow> string" where
  "type_name PNone = ''NoneType''"
| "type_name (PBool b) = ''bool''"
| "type_name (PInt i) = ''int''"
| "type_name (PFloat f) = ''float''"
| "type_name (PStr s) = ''str''"
| "type_name (PList xs) = ''list''"
| "type_name (PDict d) = ''dict''"

definition quoted :: "string \<Rightarrow> string" where
  "quoted s = CHR 0x27 # s @ [CHR 0x27]"

text \<open>Truth value of an object, as \<^verbatim>\<open>if\<close> and \<^verbatim>\<open>and\<close> test it.\<close>

fun truthy :: "pyval \<Rightarrow> bool" where
  "truthy PNone = False"
| "truthy (PBool b) = b"
| "truthy (PInt i) = (i \<noteq> 0)"
| "truthy (PFloat f) = (f \<noteq> Finite 0)"
| "truthy (PStr s) = (s \<noteq> [])"
| "truthy (PList xs) = (xs \<noteq> [])"
| "truthy (PDict d) = (d \<noteq> [])"

text \<open>
  \<^verbatim>\<open>k in v\<close> for a string \<open>k\<close>: a key of a dictionary, an element of a list, a
  substring of a string; a \<^verbatim>\<open>TypeError\<close> on a value that is no container.
\<close>

fun py_in :: "string \<Rightarrow> pyval \<Rightarrow> exn + bool" where
  "py_in k (PDict d) = Inr (map_of d k \<noteq> None)"
| "py_in k (PList xs) = Inr (PStr k \<in> set xs)"
| "py_in k (PStr s) = Inr (sublist k s)"
| "py_in k v =
     Inl (TypeError (''argument of type '' @ quoted (type_name v) @ '' is not iterable''))"

text \<open>\<^verbatim>\<open>v[k]\<close> for a string \<open>k\<close>.\<close>

fun py_getitem :: "pyval \<Rightarrow> string \<Rightarrow> exn + pyval" where
  "py_getitem (PDict d) k =
     (case map_of d k of None \<Rightarrow> Inl (KeyError (quoted k)) | Some v \<Rightarrow> Inr v)"
| "py_getitem (PList xs) k =
     Inl (TypeError ''list indices must be integers or slices, not str'')"
| "py_getitem (PStr s) k = Inl (TypeError ''string indices must be integers'')"
| "py_getitem v k =
     Inl (TypeError (quoted (type_name v) @ '' object is not subscriptable''))"

text \<open>\<^verbatim>\<open>d.get(k, default)\<close> on a dictionary.\<close>

definition dict_get :: "(string \<times> pyval) list \<Rightarrow> string \<Rightarrow> pyval \<Rightarrow> pyval" where
  "dict_get d k dflt = (case map_of d k of None \<Rightarrow> dflt | Some v \<Rightarrow> v)"

section \<open>The environment of a run\<close>

text \<open>
  The configuration file as \<^verbatim>\<open>configparser\<close> reads it. \<^verbatim>\<open>ConfigParser.read\<close> skips a
  file it cannot open and leaves the parser empty; it raises on a file it cannot
  parse. A parsed file is its sections, each with its options by their lower-case
  names, the defaults of the file among them; reading an option gives its value or
  fails in the interpolation of the value.
\<close>

datatype optval = Value string | BadInterpolation string

datatype config_source =
    Absent
  | Unparsable string
  | Parsed "(string \<times> (string \<times> optval) list) list"

datatype http_method = PUT | POST

record http_request =
  req_method :: http_method
  req_url :: string
  req_headers :: "(string \<times> string) list"
  req_json :: pyval

text \<open>
  A response: \<open>resp_json\<close> is what \<^verbatim>\<open>response.json()\<close> does, a decoded value or the
  exception it raises on a body that is not JSON.
\<close>

record http_response =
  status_code :: nat
  reason :: string
  resp_url :: string
  resp_text :: string
  resp_json :: "exn + pyval"

datatype net_result = Raises exn | Responds http_response

type_synonym row = "(string \<times> pyval) list"

text \<open>
  What a run reads from outside: the time it starts at, the platform's path separator,
  the configuration file, what \<^verbatim>\<open>pd.read_csv\<close> returns (the rows of the frame in order, or
  the exception it raises), the answer of the network to the \<open>n\<close>-th HTTP call of the
  run, and \<^verbatim>\<open>str\<close> of a value that is not a string.
\<close>

record env =
  strftime_now :: string
  os_sep :: string
  config_file :: config_source
  csv_file :: "exn + row list"
  network :: "nat \<Rightarrow> http_request \<Rightarrow> net_result"
  fmt :: "pyval \<Rightarrow> string"

text \<open>
  What a run leaves behind: the lines printed, the records of the error log file
  (each by its message) and the HTTP calls made, each in order.
\<close>

record run_state =
  stdout :: "string list"
  logfile :: "string list"
  http_calls :: "http_request list"

definition initial_state :: run_state where
  "initial_state = \<lparr>stdout = [], logfile = [], http_calls = []\<rparr>"

definition py_str :: "env \<Rightarrow> pyval \<Rightarrow> string" where
  "py_str E v = (case v of PStr s \<Rightarrow> s | _ \<Rightarrow> fmt E v)"

definition py_print :: "string \<Rightarrow> run_state \<Rightarrow> run_state" where
  "py_print message st = st\<lparr>stdout := stdout st @ [message]\<rparr>"

text \<open>
  \<^verbatim>\<open>logging.error\<close> under the configuration of \<^verbatim>\<open>setup_logging\<close>: one record
  appended to the log file. The file holds the record as the line
  \<^verbatim>\<open>%(asctime)s - %(levelname)s - %(message)s\<close>, with the time the record was made at.
\<close>

definition logging_error :: "string \<Rightarrow> run_state \<Rightarrow> run_state" where
  "logging_error message st = st\<lparr>logfile := logfile st @ [message]\<rparr>"

definition log_line :: "string \<Rightarrow> string \<Rightarrow> string" where
  "log_line asctime message = asctime @ '' - ERROR - '' @ message"

section \<open>Shared by both scripts\<close>

record configuration =
  jwt_token :: string
  api_base_url :: string

definition config_file_path :: string where
  "config_file_path = ''properties/config.properties''"

text \<open>\<^verbatim>\<open>config.read(config_file_path)\<close>: the sections of the parser afterwards.\<close>

definition config_read :: "config_source \<Rightarrow> exn + (string \<times> (string \<times> optval) list) list" where
  "config_read src =
     (case src of
        Absent \<Rightarrow> Inr []
      | Unparsable m \<Rightarrow> Inl (ConfigParserError m)
      | Parsed sections \<Rightarrow> Inr sections)"

text \<open>\<^verbatim>\<open>config[section][key]\<close>, once both are known to be there.\<close>

definition config_get :: "(string \<times> optval) list \<Rightarrow> string \<Rightarrow> exn + string" where
  "config_get options k =
     (case map_of options k of
        None \<Rightarrow> Inl (KeyError (quoted k))
      | Some (BadInterpolation m) \<Rightarrow> Inl (ConfigParserError m)
      | Some (Value v) \<Rightarrow> Inr v)"

text \<open>The body of the \<^verbatim>\<open>try\<close> of \<^verbatim>\<open>read_config\<close>, lines 15-39.\<close>

definition read_config_body :: "config_source \<Rightarrow> exn + configuration" where
  "read_config_body src =
     (case config_read src of
        Inl e \<Rightarrow> Inl e
      | Inr config \<Rightarrow>
          (case map_of config ''Authorization'' of
             None \<Rightarrow> Inl (ValueError ''Authorization section not found in config file'')
           | Some authorization \<Rightarrow>
               if map_of authorization ''jwt_token'' = None
               then Inl (ValueError ''jwt_token key not found in Authorization section'')
               else (case config_get authorization ''jwt_token'' of
                  Inl e \<Rightarrow> Inl e
                | Inr token \<Rightarrow>
                    (case map_of config ''API'' of
                       None \<Rightarrow> Inl (ValueError ''API section not found in config file'')
                     | Some api \<Rightarrow>
                         if map_of api ''base_url'' = None
                         then Inl (ValueError ''base_url key not found in API section'')
                         else (case config_get api ''base_url'' of
                            Inl e \<Rightarrow> Inl e
                          | Inr base \<Rightarrow>
                              Inr \<lparr>jwt_token = token, api_base_url = base\<rparr>)))))"

text \<open>\<^verbatim>\<open>read_config\<close> with its two handlers, lines 40-43.\<close>

definition read_config :: "config_source \<Rightarrow> exn + configuration" where
  "read_config src =
     (case read_config_body src of
        Inr configuration \<Rightarrow> Inr configuration
      | Inl e \<Rightarrow>
          if is_FileNotFoundError e
          then Inl (FileNotFoundError (''Config file not found at '' @ config_file_path))
          else Inl (Exception (''Error reading configuration: '' @ str_exn e)))"

definition read_csv_data :: "env \<Rightarrow> exn + row list" where
  "read_csv_data E =
     (case csv_file E of
        Inl e \<Rightarrow> Inl (Exception (''Error reading CSV file: '' @ str_exn e))
      | Inr df \<Rightarrow> Inr df)"

text \<open>\<^verbatim>\<open>row[column]\<close> on a row of the frame.\<close>

definition row_get :: "row \<Rightarrow> string \<Rightarrow> exn + pyval" where
  "row_get r column =
     (case map_of r column of None \<Rightarrow> Inl (KeyError (quoted column)) | Some v \<Rightarrow> Inr v)"

text \<open>
  The test both scripts make on the result of their call (line 172 of
  \<^verbatim>\<open>update_occupation.py\<close>, line 147 of \<^verbatim>\<open>add_comment.py\<close>):
  \<^verbatim>\<open>result and (('code' in result and result['code'] == '0'))\<close>.
\<close>

definition code_is_zero :: "pyval \<Rightarrow> exn + bool" where
  "code_is_zero result =
     (if \<not> truthy result then Inr False
      else (case py_in ''code'' result of
              Inl e \<Rightarrow> Inl e
            | Inr False \<Rightarrow> Inr False
            | Inr True \<Rightarrow>
                (case py_getitem result ''code'' of
                   Inl e \<Rightarrow> Inl e
                 | Inr code \<Rightarrow> Inr (code = PStr ''0''))))"

datatype verdict = Success | Failure

definition classify :: "pyval \<Rightarrow> exn + verdict" where
  "classify result =
     (case code_is_zero result of
        Inl e \<Rightarrow> Inl e
      | Inr True \<Rightarrow> Inr Success
      | Inr False \<Rightarrow> Inr Failure)"

text \<open>The \<^verbatim>\<open>error_details\<close> of the failure branch of both scripts.\<close>

definition error_details :: "env \<Rightarrow> pyval \<Rightarrow> string" where
  "error_details E result =
     (case result of
        PDict d \<Rightarrow>
          (case map_of d ''code'' of
             None \<Rightarrow> []
           | Some code \<Rightarrow>
               if code \<noteq> PStr ''0''
               then '' - Error code: '' @ py_str E code
                    @ '', Description: '' @ py_str E (dict_get d ''desc'' (PStr ''Unknown error''))
                    @ '', Data: '' @ py_str E (dict_get d ''data'' (PStr ''Unknown data''))
               else [])
      | _ \<Rightarrow> [])"

section \<open>\<^verbatim>\<open>update_occupation.py\<close>\<close>

text \<open>
  \<^verbatim>\<open>setup_logging\<close> returns the name of the log file; the file system is taken to let
  it create the directory and the file.
\<close>

definition setup_logging :: "env \<Rightarrow> string" where
  "setup_logging E =
     ''log'' @ os_sep E @ ''occupation_update_errors_'' @ strftime_now E @ ''.log''"

text \<open>
  \<^verbatim>\<open>update_occupation\<close>, lines 59-88: the handler of \<^verbatim>\<open>RequestException\<close>, the
  request, and the call. The call is recorded in \<open>http_calls\<close> and answered by the
  network; the two \<^verbatim>\<open>try\<close> blocks are the two tests on the class of the exception.
\<close>

definition request_failure :: "env \<Rightarrow> pyval \<Rightarrow> exn \<Rightarrow> run_state \<Rightarrow> run_state \<times> (exn + pyval)" where
  "request_failure E applicant_id e st =
     (if is_RequestException e
      then (py_print (''Error updating occupation for applicant '' @ py_str E applicant_id
                        @ '': '' @ str_exn e) st,
            Inr (PDict [(''success'', PBool False),
                        (''error_code'', PStr ''RequestException''),
                        (''error_message'', PStr (str_exn e))]))
      else (st, Inl e))"

definition occupation_request ::
  "env \<Rightarrow> pyval \<Rightarrow> pyval \<Rightarrow> string \<Rightarrow> string \<Rightarrow> http_request" where
  "occupation_request E applicant_id data token base =
     (let url = base @ ''/cms/v2/applicants/'' @ py_str E applicant_id @ ''/occupation'';
          headers = [(''Authorization'', token), (''Content-Type'', ''application/json'')]
      in \<lparr>req_method = PUT, req_url = url, req_headers = headers, req_json = data\<rparr>)"

definition update_occupation ::
  "env \<Rightarrow> pyval \<Rightarrow> pyval \<Rightarrow> string \<Rightarrow> string \<Rightarrow> run_state \<Rightarrow> run_state \<times> (exn + pyval)" where
  "update_occupation E applicant_id data token base st =
     (let request = occupation_request E applicant_id data token base;
          st1 = st\<lparr>http_calls := http_calls st @ [request]\<rparr>
      in case network E (length (http_calls st)) request of
           Raises e \<Rightarrow> request_failure E applicant_id e st1
         | Responds response \<Rightarrow>
             (case resp_json response of
                Inr result \<Rightarrow> (st1, Inr result)
              | Inl e \<Rightarrow>
                  if is_ValueError e
                  then (st1, Inr (PDict [(''success'', PBool False),
                                         (''error_code'', PInt (int (status_code response))),
                                         (''error_message'', PStr (resp_text response))]))
                  else request_failure E applicant_id e st1))"

definition log_success :: "env \<Rightarrow> pyval \<Rightarrow> string option \<Rightarrow> run_state \<Rightarrow> run_state" where
  "log_success E applicant_id message st =
     (let message = (case message of
                       None \<Rightarrow> ''Successfully updated occupation for applicant ''
                                @ py_str E applicant_id
                     | Some m \<Rightarrow> m)
      in py_print message st)"

definition log_failure :: "env \<Rightarrow> pyval \<Rightarrow> string option \<Rightarrow> run_state \<Rightarrow> run_state" where
  "log_failure E applicant_id message st =
     (let message = (case message of
                       None \<Rightarrow> ''Failed to update occupation for applicant ''
                                @ py_str E applicant_id
                     | Some m \<Rightarrow> m)
      in logging_error message (py_print message st))"

definition log_error :: "string \<Rightarrow> run_state \<Rightarrow> run_state" where
  "log_error error_message st = logging_error error_message (py_print error_message st)"

text \<open>
  Lines 153-156 on the cell of the row: a value that is not a string has no
  \<^verbatim>\<open>isdigit\<close>. A cell pandas found empty is the float \<open>NaN\<close>.
\<close>

definition pad_occupation_value :: "pyval \<Rightarrow> exn + string" where
  "pad_occupation_value v =
     (case v of
        PStr s \<Rightarrow> Inr (normalize_occupation_value s)
      | _ \<Rightarrow> Inl (AttributeError (quoted (type_name v)
                     @ '' object has no attribute '' @ quoted ''isdigit'')))"

definition payload :: "pyval \<Rightarrow> string \<Rightarrow> pyval" where
  "payload employment_key occupation_value =
     PDict [(''employment_key'', employment_key),
            (''occupation_key'', PStr occupation_value),
            (''is_public_politician'', PBool False),
            (''is_criminal_investigation'', PBool False)]"

text \<open>Lines 172-181: the result of the call is reported.\<close>

definition report_result :: "env \<Rightarrow> pyval \<Rightarrow> pyval \<Rightarrow> run_state \<Rightarrow> run_state \<times> exn option" where
  "report_result E applicant_id result st =
     (case classify result of
        Inl e \<Rightarrow> (st, Some e)
      | Inr Success \<Rightarrow> (log_success E applicant_id None st, None)
      | Inr Failure \<Rightarrow>
          (log_failure E applicant_id
             (Some (''Failed to update occupation for applicant '' @ py_str E applicant_id
                    @ error_details E result)) st,
           None))"

text \<open>
  The body of the loop, lines 149-181, on one row. The second component is the
  exception that leaves the loop, if one does.
\<close>

definition process_row ::
  "env \<Rightarrow> string \<Rightarrow> string \<Rightarrow> row \<Rightarrow> run_state \<Rightarrow> run_state \<times> exn option" where
  "process_row E token base r st =
     (case row_get r ''Applican ID'' of
        Inl e \<Rightarrow> (st, Some e)
      | Inr applicant_id \<Rightarrow>
     (case row_get r ''Expected occupation key'' of
        Inl e \<Rightarrow> (st, Some e)
      | Inr cell \<Rightarrow>
     (case pad_occupation_value cell of
        Inl e \<Rightarrow> (st, Some e)
      | Inr occupation_value \<Rightarrow>
     (case row_get r ''Expected employment key'' of
        Inl e \<Rightarrow> (st, Some e)
      | Inr employment_key \<Rightarrow>
          (let data = payload employment_key occupation_value;
               st1 = py_print (py_str E data) st
           in case update_occupation E applicant_id data token base st1 of
                (st2, Inl e) \<Rightarrow> (st2, Some e)
              | (st2, Inr result) \<Rightarrow> report_result E applicant_id result st2)))))"

fun process_rows ::
  "env \<Rightarrow> string \<Rightarrow> string \<Rightarrow> row list \<Rightarrow> run_state \<Rightarrow> run_state \<times> exn option" where
  "process_rows E token base [] st = (st, None)"
| "process_rows E token base (r # rs) st =
     (case process_row E token base r st of
        (st', Some e) \<Rightarrow> (st', Some e)
      | (st', None) \<Rightarrow> process_rows E token base rs st')"

definition main :: "env \<Rightarrow> run_state" where
  "main E =
     (let log_filename = setup_logging E in
      case read_config (config_file E) of
        Inl e \<Rightarrow> log_error (''Error in main process: '' @ str_exn e) initial_state
      | Inr config \<Rightarrow>
          (case read_csv_data E of
             Inl e \<Rightarrow> log_error (''Error in main process: '' @ str_exn e) initial_state
           | Inr df \<Rightarrow>
               (case process_rows E (jwt_token config) (api_base_url config) df initial_state of
                  (st, Some e) \<Rightarrow> log_error (''Error in main process: '' @ str_exn e) st
                | (st, None) \<Rightarrow>
                    py_print (''Process completed. Log file for errors: '' @ log_filename) st)))"

section \<open>\<^verbatim>\<open>add_comment.py\<close>\<close>

text \<open>
  \<^verbatim>\<open>Response.raise_for_status\<close> of the requests library raises an \<^verbatim>\<open>HTTPError\<close>, a
  \<^verbatim>\<open>RequestException\<close>, for a status from 400 to 599 and does nothing for any other.
\<close>

definition raise_for_status :: "env \<Rightarrow> http_response \<Rightarrow> exn option" where
  "raise_for_status E response =
     (let code = status_code response in
      if 400 \<le> code \<and> code < 500
      then Some (RequestException (py_str E (PInt (int code)) @ '' Client Error: ''
                   @ reason response @ '' for url: '' @ resp_url response))
      else if 500 \<le> code \<and> code < 600
      then Some (RequestException (py_str E (PInt (int code)) @ '' Server Error: ''
                   @ reason response @ '' for url: '' @ resp_url response))
      else None)"

definition comment_failure ::
  "env \<Rightarrow> pyval \<Rightarrow> pyval \<Rightarrow> exn \<Rightarrow> run_state \<Rightarrow> run_state \<times> (exn + pyval)" where
  "comment_failure E applicant_id institution_key e st =
     (if is_RequestException e
      then (py_print (''Error adding comment for applicant '' @ py_str E applicant_id
                        @ '', institution '' @ py_str E institution_key
                        @ '': '' @ str_exn e) st,
            Inr PNone)
      else (st, Inl e))"

definition comment_request ::
  "env \<Rightarrow> pyval \<Rightarrow> pyval \<Rightarrow> pyval \<Rightarrow> string \<Rightarrow> string \<Rightarrow> http_request" where
  "comment_request E applicant_id institution_key comment_data token base =
     (let url = base @ ''/cms/v2/applicants/'' @ py_str E applicant_id
                @ ''/institutions/'' @ py_str E institution_key @ ''/comment'';
          headers = [(''Authorization'', token), (''Content-Type'', ''application/json'')]
      in \<lparr>req_method = POST, req_url = url, req_headers = headers, req_json = comment_data\<rparr>)"

text \<open>\<^verbatim>\<open>add_comment\<close>, lines 57-71.\<close>

definition add_comment ::
  "env \<Rightarrow> pyval \<Rightarrow> pyval \<Rightarrow> pyval \<Rightarrow> string \<Rightarrow> string \<Rightarrow> run_state
     \<Rightarrow> run_state \<times> (exn + pyval)" where
  "add_comment E applicant_id institution_key comment_data token base st =
     (let request = comment_request E applicant_id institution_key comment_data token base;
          st1 = st\<lparr>http_calls := http_calls st @ [request]\<rparr>
      in case network E (length (http_calls st)) request of
           Raises e \<Rightarrow> comment_failure E applicant_id institution_key e st1
         | Responds response \<Rightarrow>
             (case raise_for_status E response of
                Some e \<Rightarrow> comment_failure E applicant_id institution_key e st1
              | None \<Rightarrow>
                  (case resp_json response of
                     Inr result \<Rightarrow> (st1, Inr result)
                   | Inl e \<Rightarrow> comment_failure E applicant_id institution_key e st1)))"

definition log_success_comment :: "env \<Rightarrow> pyval \<Rightarrow> string option \<Rightarrow> run_state \<Rightarrow> run_state" where
  "log_success_comment E applicant_id message st =
     (let message = (case message of
                       None \<Rightarrow> ''Successfully add comment for applicant ''
                                @ py_str E applicant_id
                     | Some m \<Rightarrow> m)
      in py_print message st)"

definition log_failure_comment :: "env \<Rightarrow> pyval \<Rightarrow> string option \<Rightarrow> run_state \<Rightarrow> run_state" where
  "log_failure_comment E applicant_id message st =
     (let message = (case message of
                       None \<Rightarrow> ''Failed to add comment for applicant ''
                                @ py_str E applicant_id
                     | Some m \<Rightarrow> m)
      in logging_error message (py_print message st))"

definition comment_data :: pyval where
  "comment_data =
     PDict [(''comment'',
       PStr (''- Change occupation CMS note: Occupation updated due to data segregation issue from 2.0 to 3.0.''
             @ [CHR 0x0A]
             @ ''- Change criminal subjected CMS note: Criminal subjected updated as user is from 2.0.''))]"

text \<open>Lines 147-156 of \<^verbatim>\<open>add_comment.py\<close>.\<close>

definition report_result_comment ::
  "env \<Rightarrow> pyval \<Rightarrow> pyval \<Rightarrow> run_state \<Rightarrow> run_state \<times> exn option" where
  "report_result_comment E applicant_id result st =
     (case classify result of
        Inl e \<Rightarrow> (st, Some e)
      | Inr Success \<Rightarrow> (log_success_comment E applicant_id None st, None)
      | Inr Failure \<Rightarrow>
          (log_failure_comment E applicant_id
             (Some (''Failed to add comment for applicant: '' @ py_str E applicant_id
                    @ error_details E result)) st,
           None))"

definition process_row_comment ::
  "env \<Rightarrow> string \<Rightarrow> string \<Rightarrow> row \<Rightarrow> run_state \<Rightarrow> run_state \<times> exn option" where
  "process_row_comment E token base r st =
     (case row_get r ''Applican ID'' of
        Inl e \<Rightarrow> (st, Some e)
      | Inr applicant_id \<Rightarrow>
     (case row_get r ''Institution'' of
        Inl e \<Rightarrow> (st, Some e)
      | Inr institution_key \<Rightarrow>
          (case add_comment E applicant_id institution_key comment_data token base st of
             (st1, Inl e) \<Rightarrow> (st1, Some e)
           | (st1, Inr result) \<Rightarrow> report_result_comment E applicant_id result st1)))"

fun process_rows_comment ::
  "env \<Rightarrow> string \<Rightarrow> string \<Rightarrow> row list \<Rightarrow> run_state \<Rightarrow> run_state \<times> exn option" where
  "process_rows_comment E token base [] st = (st, None)"
| "process_rows_comment E token base (r # rs) st =
     (case process_row_comment E token base r st of
        (st', Some e) \<Rightarrow> (st', Some e)
      | (st', None) \<Rightarrow> process_rows_comment E token base rs st')"

text \<open>
  \<^verbatim>\<open>main\<close> of \<^verbatim>\<open>add_comment.py\<close>: its handler prints the error and does not log it.
  Its \<^verbatim>\<open>setup_logging\<close> differs from the one above in the name of the log file only,
  which this script does not print.
\<close>

definition main_comment :: "env \<Rightarrow> run_state" where
  "main_comment E =
     (case read_config (config_file E) of
        Inl e \<Rightarrow> py_print (''Error in main process: '' @ str_exn e) initial_state
      | Inr config \<Rightarrow>
          (case read_csv_data E of
             Inl e \<Rightarrow> py_print (''Error in main process: '' @ str_exn e) initial_state
           | Inr df \<Rightarrow>
               (case process_rows_comment E (jwt_token config) (api_base_url config) df
                       initial_state of
                  (st, Some e) \<Rightarrow> py_print (''Error in main process: '' @ str_exn e) st
                | (st, None) \<Rightarrow> st)))"

section \<open>Notions the properties are stated with\<close>

text \<open>
  The branch of line 172 (line 147 in \<^verbatim>\<open>add_comment.py\<close>) a row takes: the result of
  the call, classified.
\<close>

definition row_verdict ::
  "env \<Rightarrow> pyval \<Rightarrow> pyval \<Rightarrow> string \<Rightarrow> string \<Rightarrow> run_state \<Rightarrow> exn + verdict" where
  "row_verdict E applicant_id data token base st =
     (case update_occupation E applicant_id data token base st of
        (st', Inl e) \<Rightarrow> Inl e
      | (st', Inr result) \<Rightarrow> classify result)"

definition row_verdict_comment ::
  "env \<Rightarrow> pyval \<Rightarrow> pyval \<Rightarrow> string \<Rightarrow> string \<Rightarrow> run_state \<Rightarrow> exn + verdict" where
  "row_verdict_comment E applicant_id institution_key token base st =
     (case add_comment E applicant_id institution_key comment_data token base st of
        (st', Inl e) \<Rightarrow> Inl e
      | (st', Inr result) \<Rightarrow> classify result)"

text \<open>
  A row of the data model: the three columns of the update are there and the
  occupation key is text.
\<close>

definition well_formed_row :: "row \<Rightarrow> bool" where
  "well_formed_row r =
     (map_of r ''Applican ID'' \<noteq> None
      \<and> (case map_of r ''Expected occupation key'' of Some (PStr s) \<Rightarrow> True | _ \<Rightarrow> False)
      \<and> map_of r ''Expected employment key'' \<noteq> None)"

text \<open>
  The answers to a call the design names: a transport error, a response whose body is
  not JSON, a response whose body is a JSON object.
\<close>

definition listed_outcome :: "net_result \<Rightarrow> bool" where
  "listed_outcome answer =
     (case answer of
        Raises e \<Rightarrow> is_RequestException e
      | Responds response \<Rightarrow>
          (case resp_json response of
             Inl e \<Rightarrow> is_ValueError e
           | Inr (PDict d) \<Rightarrow> True
           | Inr _ \<Rightarrow> False))"

text \<open>
  A row processed alone: from the initial state, against the answers the network
  gives from its \<open>i\<close>-th call on.
\<close>

definition shift_network :: "nat \<Rightarrow> env \<Rightarrow> env" where
  "shift_network i E = E\<lparr>network := (\<lambda>k. network E (i + k))\<rparr>"

definition row_alone :: "env \<Rightarrow> string \<Rightarrow> string \<Rightarrow> nat \<Rightarrow> row \<Rightarrow> run_state" where
  "row_alone E token base i r = fst (process_row (shift_network i E) token base r initial_state)"

text \<open>
  A configuration file that is absent, or lacks one of the two sections, or lacks the
  key of a section it has.
\<close>

definition missing_setting :: "config_source \<Rightarrow> bool" where
  "missing_setting src =
     (case src of
        Absent \<Rightarrow> True
      | Unparsable m \<Rightarrow> False
      | Parsed sections \<Rightarrow>
          (case map_of sections ''Authorization'' of
             None \<Rightarrow> True
           | Some authorization \<Rightarrow> map_of authorization ''jwt_token'' = None)
          \<or> (case map_of sections ''API'' of
                None \<Rightarrow> True
              | Some api \<Rightarrow> map_of api ''base_url'' = None))"

text \<open>
  The request line 169 makes for a row of the data model.
\<close>

definition row_request :: "env \<Rightarrow> string \<Rightarrow> string \<Rightarrow> row \<Rightarrow> http_request option" where
  "row_request E token base r =
     (case (map_of r ''Applican ID'', map_of r ''Expected occupation key'',
            map_of r ''Expected employment key'') of
        (Some applicant_id, Some (PStr s), Some employment_key) \<Rightarrow>
          Some (occupation_request E applicant_id
                  (payload employment_key (normalize_occupation_value s)) token base)
      | _ \<Rightarrow> None)"

text \<open>
  One state after another: what the second adds to the first. The rows of a frame
  processed each alone, from row \<open>k\<close> of the run on, one after the other.
\<close>

definition extend :: "run_state \<Rightarrow> run_state \<Rightarrow> run_state" where
  "extend st d = \<lparr>stdout = stdout st @ stdout d, logfile = logfile st @ logfile d,
                  http_calls = http_calls st @ http_calls d\<rparr>"

definition rows_alone :: "env \<Rightarrow> string \<Rightarrow> string \<Rightarrow> nat \<Rightarrow> row list \<Rightarrow> run_state" where
  "rows_alone E token base k rows =
     \<lparr>stdout = concat (map (\<lambda>(i, r). stdout (row_alone E token base i r)) (enumerate k rows)),
      logfile = concat (map (\<lambda>(i, r). logfile (row_alone E token base i r)) (enumerate k rows)),
      http_calls = concat (map (\<lambda>(i, r). http_calls (row_alone E token base i r)) (enumerate k rows))\<rparr>"

text \<open>
  Data for the examples. \<open>example_fmt\<close> stands in for \<^verbatim>\<open>str\<close> on the values that
  are not strings: it gives the type of the value in angle brackets.
\<close>

definition dq :: string where
  "dq = [CHR 0x22]"

definition row_A1 :: row where
  "row_A1 = [(''Applican ID'', PStr ''A1''),
             (''Expected employment key'', PStr ''E9''),
             (''Expected occupation key'', PStr ''7'')]"

definition row_B2 :: row where
  "row_B2 = [(''Applican ID'', PStr ''B2''),
             (''Expected employment key'', PStr ''E1''),
             (''Expected occupation key'', PStr ''042'')]"

definition row_C3 :: row where
  "row_C3 = [(''Applican ID'', PStr ''C3''),
             (''Expected employment key'', PStr ''E4''),
             (''Expected occupation key'', PStr ''1234'')]"

text \<open>A row whose occupation cell is empty: pandas reads it as the float \<open>NaN\<close>.\<close>

definition row_empty_key :: row where
  "row_empty_key = [(''Applican ID'', PStr ''D4''),
                    (''Expected employment key'', PStr ''E2''),
                    (''Expected occupation key'', PFloat NaN)]"

definition example_config :: config_source where
  "example_config =
     Parsed [(''Authorization'', [(''jwt_token'', Value ''Bearer abc'')]),
             (''API'', [(''base_url'', Value ''https://cms.example'')])]"

definition example_fmt :: "pyval \<Rightarrow> string" where
  "example_fmt v = ''<'' @ type_name v @ ''>''"

definition example_env ::
  "config_source \<Rightarrow> row list \<Rightarrow> (nat \<Rightarrow> http_request \<Rightarrow> net_result) \<Rightarrow> env" where
  "example_env src rows net =
     \<lparr>strftime_now = ''20250102_030405'', os_sep = ''/'', config_file = src,
      csv_file = Inr rows, network = net, fmt = example_fmt\<rparr>"

text \<open>A response with the body \<^verbatim>\<open>{"code": "<code>"}\<close>.\<close>

definition code_response :: "nat \<Rightarrow> string \<Rightarrow> string \<Rightarrow> http_response" where
  "code_response status phrase code =
     \<lparr>status_code = status, reason = phrase, resp_url = ''https://cms.example'',
      resp_text = ''{'' @ dq @ ''code'' @ dq @ '': '' @ dq @ code @ dq @ ''}'',
      resp_json = Inr (PDict [(''code'', PStr code)])\<rparr>"

definition invalid_key_response :: http_response where
  "invalid_key_response =
     \<lparr>status_code = 200, reason = ''OK'', resp_url = ''https://cms.example'',
      resp_text = ''{'' @ dq @ ''code'' @ dq @ '': '' @ dq @ ''5'' @ dq @ '', ''
                  @ dq @ ''desc'' @ dq @ '': '' @ dq @ ''invalid key'' @ dq @ ''}'',
      resp_json = Inr (PDict [(''code'', PStr ''5''), (''desc'', PStr ''invalid key'')])\<rparr>"

definition answering :: "net_result \<Rightarrow> nat \<Rightarrow> http_request \<Rightarrow> net_result" where
  "answering answer n request = answer"

definition html_response :: http_response where
  "html_response =
     \<lparr>status_code = 502, reason = ''Bad Gateway'', resp_url = ''https://cms.example'',
      resp_text = ''<html>Bad Gateway</html>'',
      resp_json = Inl (JSONDecodeError ''Expecting value: line 1 column 1 (char 0)'')\<rparr>"

text \<open>
  A network that refuses the first call, answers the second with a page that is not
  JSON and the third with the code 5.
\<close>

definition three_failures :: "nat \<Rightarrow> http_request \<Rightarrow> net_result" where
  "three_failures n request =
     (if n = 0 then Raises (RequestException ''Connection refused'')
      else if n = 1 then Responds html_response
      else Responds (code_response 200 ''OK'' ''5''))"

section \<open>Occupation-key normalization\<close>

lemma isdigit_char_not_sign:
  "isdigit_char c \<Longrightarrow> c \<noteq> CHR ''+'' \<and> c \<noteq> CHR ''-''"
  by (auto simp: isdigit_char_def)

lemma zfill_isdigit:
  assumes "isdigit s"
  shows "zfill s w = replicate (w - length s) (CHR ''0'') @ s"
proof (cases s)
  case Nil
  with assms show ?thesis by (simp add: isdigit_def)
next
  case (Cons c cs)
  with assms have "isdigit_char c" by (simp add: isdigit_def)
  then have "c \<noteq> CHR ''+''" "c \<noteq> CHR ''-''"
    using isdigit_char_not_sign by blast+
  with Cons show ?thesis by (simp add: zfill_def)
qed

lemma normalize_padded:
  "normalize_occupation_value s =
     (if s \<noteq> [] \<and> list_all isdigit_char s \<and> length s < 3
      then replicate (3 - length s) (CHR ''0'') @ s
      else s)"
  by (simp add: normalize_occupation_value_def zfill_isdigit) (simp add: isdigit_def)

lemmas normalize_eval =
  normalize_occupation_value_def isdigit_def isdigit_char_def zfill_def eval_nat_numeral

text \<open>
  C1. A key that is a non-empty string of digits (in the sense of \<^verbatim>\<open>str.isdigit\<close>)
  shorter than 3 is returned with zeros on its left, at length exactly 3; every other
  string, the empty one included, is returned as it is. \<open>"7"\<close> becomes \<open>"007"\<close>;
  \<open>"042"\<close>, \<open>"1234"\<close> and \<open>"0A7"\<close> stay as they are.
\<close>

theorem occupation_key_normalization:
  "normalize_occupation_value s =
     (if s \<noteq> [] \<and> list_all isdigit_char s \<and> length s < 3
      then replicate (3 - length s) (CHR ''0'') @ s
      else s)
   \<and> length (normalize_occupation_value s) =
     (if s \<noteq> [] \<and> list_all isdigit_char s \<and> length s < 3 then 3 else length s)
   \<and> normalize_occupation_value ''7'' = ''007''
   \<and> normalize_occupation_value ''042'' = ''042''
   \<and> normalize_occupation_value ''1234'' = ''1234''
   \<and> normalize_occupation_value ''0A7'' = ''0A7''
   \<and> normalize_occupation_value [] = []"
proof -
  have padded: "normalize_occupation_value s =
     (if s \<noteq> [] \<and> list_all isdigit_char s \<and> length s < 3
      then replicate (3 - length s) (CHR ''0'') @ s
      else s)"
    by (rule normalize_padded)
  have len: "length (normalize_occupation_value s) =
     (if s \<noteq> [] \<and> list_all isdigit_char s \<and> length s < 3 then 3 else length s)"
    by (simp add: padded)
  have e1: "normalize_occupation_value ''7'' = ''007''"
    by (simp add: normalize_eval)
  have e2: "normalize_occupation_value ''042'' = ''042''"
    by (simp add: normalize_eval)
  have e3: "normalize_occupation_value ''1234'' = ''1234''"
    by (simp add: normalize_eval)
  have e4: "normalize_occupation_value ''0A7'' = ''0A7''"
    by (simp add: normalize_eval)
  have e5: "normalize_occupation_value [] = []"
    by (simp add: normalize_eval)
  from padded len e1 e2 e3 e4 e5 show ?thesis by blast
qed

text \<open>
  C8. Normalizing twice is normalizing once: the result of one application to a
  non-empty string of digits has length at least 3, so the second application leaves
  it as it is.
\<close>

theorem normalization_idempotent:
  "normalize_occupation_value (normalize_occupation_value s) = normalize_occupation_value s
   \<and> (s \<noteq> [] \<and> list_all isdigit_char s \<longrightarrow> 3 \<le> length (normalize_occupation_value s))"
proof -
  have "\<not> (isdigit s \<and> length s < 3) \<or> length (zfill s 3) = 3"
    by (auto simp: zfill_isdigit)
  then have idem: "normalize_occupation_value (normalize_occupation_value s)
        = normalize_occupation_value s"
    by (auto simp: normalize_occupation_value_def)
  have "s \<noteq> [] \<and> list_all isdigit_char s \<longrightarrow> 3 \<le> length (normalize_occupation_value s)"
    by (simp add: normalize_padded)
  with idem show ?thesis by simp
qed

theorem normalization_idempotent_witness:
  "normalize_occupation_value (normalize_occupation_value ''7'') = normalize_occupation_value ''7''
   \<and> normalize_occupation_value ''7'' = ''007''
   \<and> 3 \<le> length (normalize_occupation_value ''7'')"
proof -
  have d: "''7'' \<noteq> [] \<and> list_all isdigit_char ''7''"
    by (simp add: isdigit_char_def)
  have v: "normalize_occupation_value ''7'' = ''007''"
    by (simp add: normalize_eval)
  from normalization_idempotent [of "''7''"] d v show ?thesis by blast
qed

section \<open>The loop over the rows\<close>

lemma extend_initial [simp]: "extend st initial_state = st"
  by (simp add: extend_def initial_state_def)

lemma extend_sel [simp]:
  "stdout (extend st d) = stdout st @ stdout d"
  "logfile (extend st d) = logfile st @ logfile d"
  "http_calls (extend st d) = http_calls st @ http_calls d"
  by (simp_all add: extend_def)

lemma fmt_shift [simp]: "fmt (shift_network i E) = fmt E"
  by (simp add: shift_network_def)

lemma py_str_shift [simp]: "py_str (shift_network i E) v = py_str E v"
  by (simp add: py_str_def split: pyval.splits)

lemma network_shift [simp]: "network (shift_network i E) k = network E (i + k)"
  by (simp add: shift_network_def)

lemma py_print_extend: "py_print m (extend st d) = extend st (py_print m d)"
  by (simp add: py_print_def extend_def)

lemma logging_error_extend: "logging_error m (extend st d) = extend st (logging_error m d)"
  by (simp add: logging_error_def extend_def)

lemma log_success_extend:
  "log_success E a m (extend st d) = extend st (log_success (shift_network i E) a m d)"
  by (simp add: log_success_def Let_def py_print_extend split: option.splits)

lemma log_failure_extend:
  "log_failure E a m (extend st d) = extend st (log_failure (shift_network i E) a m d)"
  by (simp add: log_failure_def Let_def py_print_extend logging_error_extend split: option.splits)

lemma request_failure_extend:
  "request_failure E a e (extend st d) =
     (extend st (fst (request_failure (shift_network i E) a e d)),
      snd (request_failure (shift_network i E) a e d))"
  by (simp add: request_failure_def py_print_extend)

lemma call_extend:
  "(extend st d)\<lparr>http_calls := http_calls st @ http_calls d @ [q]\<rparr>
     = extend st (d\<lparr>http_calls := http_calls d @ [q]\<rparr>)"
  by (simp add: extend_def)

lemma occupation_request_shift [simp]:
  "occupation_request (shift_network i E) a data token base = occupation_request E a data token base"
  by (simp add: occupation_request_def)

lemma update_occupation_extend:
  "update_occupation E a data token base (extend st d) =
     (extend st (fst (update_occupation (shift_network (length (http_calls st)) E) a data token base d)),
      snd (update_occupation (shift_network (length (http_calls st)) E) a data token base d))"
  by (simp add: update_occupation_def Let_def call_extend
        request_failure_extend [where i = "length (http_calls st)"]
      split: net_result.splits sum.splits)

lemma error_details_shift [simp]:
  "error_details (shift_network i E) result = error_details E result"
  by (simp add: error_details_def split: pyval.splits option.splits)

lemma report_result_extend:
  "report_result E a result (extend st d) =
     (extend st (fst (report_result (shift_network i E) a result d)),
      snd (report_result (shift_network i E) a result d))"
  by (simp add: report_result_def log_success_extend [where i = i]
        log_failure_extend [where i = i]
      split: sum.splits verdict.splits)

lemma process_row_extend:
  "process_row E token base r (extend st d) =
     (extend st (fst (process_row (shift_network (length (http_calls st)) E) token base r d)),
      snd (process_row (shift_network (length (http_calls st)) E) token base r d))"
  by (simp add: process_row_def Let_def py_print_extend
        update_occupation_extend report_result_extend [where i = "length (http_calls st)"]
      split: sum.splits prod.splits)

lemma process_row_alone:
  "process_row E token base r st =
     (extend st (row_alone E token base (length (http_calls st)) r),
      snd (process_row (shift_network (length (http_calls st)) E) token base r initial_state))"
  using process_row_extend [of E token base r st initial_state]
  by (simp add: row_alone_def)


lemma code_is_zero_dict:
  "code_is_zero (PDict d) = Inr (map_of d ''code'' = Some (PStr ''0''))"
proof (cases "map_of d ''code''")
  case None
  then show ?thesis by (simp add: code_is_zero_def)
next
  case (Some v)
  then have "d \<noteq> []" by auto
  with Some show ?thesis by (simp add: code_is_zero_def)
qed

lemma classify_dict:
  "classify (PDict d) = Inr (if map_of d ''code'' = Some (PStr ''0'') then Success else Failure)"
  by (simp add: classify_def code_is_zero_dict)

lemma http_calls_print [simp]: "http_calls (py_print m st) = http_calls st"
  by (simp add: py_print_def)

lemma http_calls_logging_error [simp]: "http_calls (logging_error m st) = http_calls st"
  by (simp add: logging_error_def)

lemma http_calls_log_success [simp]: "http_calls (log_success E a m st) = http_calls st"
  by (simp add: log_success_def Let_def)

lemma http_calls_log_failure [simp]: "http_calls (log_failure E a m st) = http_calls st"
  by (simp add: log_failure_def Let_def)

lemma http_calls_request_failure [simp]:
  "http_calls (fst (request_failure E a e st)) = http_calls st"
  by (simp add: request_failure_def)

lemma http_calls_update_occupation:
  "http_calls (fst (update_occupation E a data token base st))
     = http_calls st @ [occupation_request E a data token base]"
  by (simp add: update_occupation_def Let_def split: net_result.splits sum.splits)

lemma http_calls_report_result [simp]:
  "http_calls (fst (report_result E a result st)) = http_calls st"
  by (simp add: report_result_def split: sum.splits verdict.splits)

lemma well_formed_rowE:
  assumes "well_formed_row r"
  obtains a s k where "map_of r ''Applican ID'' = Some a"
    "map_of r ''Expected occupation key'' = Some (PStr s)"
    "map_of r ''Expected employment key'' = Some k"
  using assms
  by (auto simp: well_formed_row_def split: option.splits pyval.splits)

lemma process_row_columns:
  assumes "map_of r ''Applican ID'' = Some a"
    and "map_of r ''Expected occupation key'' = Some (PStr s)"
    and "map_of r ''Expected employment key'' = Some k"
  shows "process_row E token base r st =
     (let data = payload k (normalize_occupation_value s) in
      case update_occupation E a data token base (py_print (py_str E data) st) of
        (st2, Inl e) \<Rightarrow> (st2, Some e)
      | (st2, Inr result) \<Rightarrow> report_result E a result st2)"
  using assms by (simp add: process_row_def row_get_def pad_occupation_value_def)

lemma update_occupation_listed:
  assumes "listed_outcome (network E (length (http_calls st)) (occupation_request E a data token base))"
  shows "\<exists>st' d. update_occupation E a data token base st = (st', Inr (PDict d))"
  using assms
  by (auto simp: listed_outcome_def update_occupation_def request_failure_def Let_def
      split: net_result.splits sum.splits pyval.splits)

lemma report_result_dict: "snd (report_result E a (PDict d) st) = None"
  by (simp add: report_result_def classify_dict)

lemma process_row_calls:
  assumes "well_formed_row r"
  shows "\<exists>q. row_request E token base r = Some q
           \<and> http_calls (fst (process_row E token base r st)) = http_calls st @ [q]"
proof -
  from assms obtain a s k where c: "map_of r ''Applican ID'' = Some a"
    "map_of r ''Expected occupation key'' = Some (PStr s)"
    "map_of r ''Expected employment key'' = Some k"
    by (rule well_formed_rowE)
  let ?data = "payload k (normalize_occupation_value s)"
  let ?st1 = "py_print (py_str E ?data) st"
  obtain st2 res where u: "update_occupation E a ?data token base ?st1 = (st2, res)"
    by (cases "update_occupation E a ?data token base ?st1")
  have "http_calls st2 = http_calls st @ [occupation_request E a ?data token base]"
    using http_calls_update_occupation [of E a ?data token base ?st1] u by simp
  moreover have "http_calls (fst (process_row E token base r st)) = http_calls st2"
    using u by (simp add: process_row_columns [OF c] split: sum.splits)
  moreover have "row_request E token base r = Some (occupation_request E a ?data token base)"
    using c by (simp add: row_request_def)
  ultimately show ?thesis by simp
qed

lemma process_row_no_abort:
  assumes "well_formed_row r"
    and "\<And>q. listed_outcome (network E (length (http_calls st)) q)"
  shows "snd (process_row E token base r st) = None"
proof -
  from assms(1) obtain a s k where c: "map_of r ''Applican ID'' = Some a"
    "map_of r ''Expected occupation key'' = Some (PStr s)"
    "map_of r ''Expected employment key'' = Some k"
    by (rule well_formed_rowE)
  let ?data = "payload k (normalize_occupation_value s)"
  let ?st1 = "py_print (py_str E ?data) st"
  have "listed_outcome (network E (length (http_calls ?st1)) (occupation_request E a ?data token base))"
    using assms(2) by simp
  then obtain st2 d where u: "update_occupation E a ?data token base ?st1 = (st2, Inr (PDict d))"
    using update_occupation_listed by blast
  then show ?thesis
    by (simp add: process_row_columns [OF c] report_result_dict)
qed


lemma row_request_shift [simp]:
  "row_request (shift_network i E) token base r = row_request E token base r"
  by (simp add: row_request_def split: option.splits pyval.splits)

lemma row_alone_calls:
  assumes "well_formed_row r"
  shows "\<exists>q. row_request E token base r = Some q \<and> http_calls (row_alone E token base i r) = [q]"
  using process_row_calls [OF assms, of "shift_network i E" token base initial_state]
  by (simp add: row_alone_def initial_state_def)

lemma extend_assoc: "extend (extend st a) b = extend st (extend a b)"
  by (simp add: extend_def)

lemma rows_alone_Nil [simp]: "rows_alone E token base k [] = initial_state"
  by (simp add: rows_alone_def initial_state_def)

lemma rows_alone_Cons:
  "rows_alone E token base k (r # rs)
     = extend (row_alone E token base k r) (rows_alone E token base (Suc k) rs)"
  by (simp add: rows_alone_def extend_def)

lemma process_rows_listed:
  assumes "\<forall>r \<in> set rows. well_formed_row r"
    and "\<forall>i < length rows. \<forall>q. listed_outcome (network E (length (http_calls st) + i) q)"
  shows "process_rows E token base rows st
           = (extend st (rows_alone E token base (length (http_calls st)) rows), None)"
  using assms
proof (induction rows arbitrary: st)
  case Nil
  then show ?case by simp
next
  case (Cons r rs)
  let ?k = "length (http_calls st)"
  let ?st' = "extend st (row_alone E token base ?k r)"
  have wf: "well_formed_row r" using Cons.prems(1) by simp
  have "\<And>q. listed_outcome (network E ?k q)"
    using Cons.prems(2) by force
  then have "snd (process_row E token base r st) = None"
    using wf by (rule process_row_no_abort [rotated])
  then have step: "process_row E token base r st = (?st', None)"
    using process_row_alone [of E token base r st] by simp
  obtain q where "http_calls (row_alone E token base ?k r) = [q]"
    using row_alone_calls [OF wf] by blast
  then have len: "length (http_calls ?st') = Suc ?k" by simp
  have "\<forall>i < length rs. \<forall>q. listed_outcome (network E (length (http_calls ?st') + i) q)"
  proof (intro allI impI)
    fix i q assume "i < length rs"
    then have "Suc i < length (r # rs)" by simp
    then have "listed_outcome (network E (?k + Suc i) q)"
      using Cons.prems(2) by blast
    then show "listed_outcome (network E (length (http_calls ?st') + i) q)"
      unfolding len by simp
  qed
  moreover have "\<forall>r \<in> set rs. well_formed_row r" using Cons.prems(1) by simp
  ultimately have "process_rows E token base rs ?st'
      = (extend ?st' (rows_alone E token base (length (http_calls ?st')) rs), None)"
    by (rule Cons.IH [rotated])
  then show ?case
    unfolding len by (simp add: step rows_alone_Cons extend_assoc)
qed


lemma py_str_cong: "fmt E = fmt E' \<Longrightarrow> py_str E = py_str E'"
  by (rule ext) (simp add: py_str_def split: pyval.splits)

lemma request_failure_cong:
  "py_str E = py_str E' \<Longrightarrow> request_failure E a e st = request_failure E' a e st"
  by (simp add: request_failure_def)

lemma occupation_request_cong:
  "py_str E = py_str E' \<Longrightarrow>
     occupation_request E a data token base = occupation_request E' a data token base"
  by (simp add: occupation_request_def)

lemma update_occupation_cong:
  assumes n: "network E (length (http_calls st)) = network E' (length (http_calls st))"
    and p: "py_str E = py_str E'"
  shows "update_occupation E a data token base st = update_occupation E' a data token base st"
  unfolding update_occupation_def Let_def n
    occupation_request_cong [OF p] request_failure_cong [OF p]
  by (rule refl)

lemma error_details_cong:
  assumes p: "py_str E = py_str E'"
  shows "error_details E result = error_details E' result"
  unfolding error_details_def p by (rule refl)

lemma report_result_cong:
  assumes p: "py_str E = py_str E'"
  shows "report_result E a result st = report_result E' a result st"
  unfolding report_result_def log_success_def log_failure_def p error_details_cong [OF p]
  by (rule refl)

lemma process_row_cong:
  assumes n: "network E (length (http_calls st)) = network E' (length (http_calls st))"
    and f: "fmt E = fmt E'"
  shows "process_row E token base r st = process_row E' token base r st"
proof -
  have p: "py_str E = py_str E'" using f by (rule py_str_cong)
  have u: "\<And>a data m. update_occupation E a data token base (py_print m st)
                       = update_occupation E' a data token base (py_print m st)"
    using n by (intro update_occupation_cong p) simp
  show ?thesis
    unfolding process_row_def Let_def p u report_result_cong [OF p]
    by (rule refl)
qed

lemma row_alone_cong:
  assumes "network E i = network E' i" and "fmt E = fmt E'"
  shows "row_alone E token base i r = row_alone E' token base i r"
proof -
  have "process_row (shift_network i E) token base r initial_state
      = process_row (shift_network i E') token base r initial_state"
    using assms by (intro process_row_cong) (simp_all add: initial_state_def)
  then show ?thesis by (simp add: row_alone_def)
qed

text \<open>
  C4, as the code has it. In a run whose configuration and frame load, whose rows
  carry the three columns with a textual occupation key and whose calls are each
  answered by a transport error, a body that is not JSON or a JSON object (with any
  code or none): the calls made are the requests of the rows, one for each row and in
  the order of the rows; no exception leaves the loop and the run ends with its
  completion line; what is printed and logged is what each row prints and logs when
  processed alone against its own answer, one row after the other; and a row
  processed alone depends on no answer but its own.
\<close>

theorem per_row_independence:
  assumes "read_config (config_file E) = Inr config"
    and "csv_file E = Inr rows"
    and "\<forall>r \<in> set rows. well_formed_row r"
    and "\<forall>i < length rows. \<forall>q. listed_outcome (network E i q)"
  shows "map Some (http_calls (main E))
           = map (row_request E (jwt_token config) (api_base_url config)) rows
     \<and> snd (process_rows E (jwt_token config) (api_base_url config) rows initial_state) = None
     \<and> stdout (main E)
           = concat (map (\<lambda>(i, r). stdout (row_alone E (jwt_token config) (api_base_url config) i r))
                       (enumerate 0 rows))
             @ [''Process completed. Log file for errors: '' @ setup_logging E]
     \<and> logfile (main E)
           = concat (map (\<lambda>(i, r). logfile (row_alone E (jwt_token config) (api_base_url config) i r))
                       (enumerate 0 rows))
     \<and> (\<forall>i E'. network E' i = network E i \<and> fmt E' = fmt E \<longrightarrow>
           row_alone E' (jwt_token config) (api_base_url config) i
             = row_alone E (jwt_token config) (api_base_url config) i)"
proof -
  let ?t = "jwt_token config" and ?b = "api_base_url config"
  have "\<forall>i < length rows. \<forall>q.
          listed_outcome (network E (length (http_calls initial_state) + i) q)"
    using assms(4) by (simp add: initial_state_def)
  with assms(3) have run: "process_rows E ?t ?b rows initial_state
      = (extend initial_state (rows_alone E ?t ?b (length (http_calls initial_state)) rows), None)"
    by (rule process_rows_listed)
  have k: "length (http_calls initial_state) = 0" by (simp add: initial_state_def)
  have ext0: "\<And>d. extend initial_state d = d"
    by (simp add: extend_def initial_state_def)
  have run': "process_rows E ?t ?b rows initial_state = (rows_alone E ?t ?b 0 rows, None)"
    using run unfolding k ext0 .
  have m: "main E = py_print (''Process completed. Log file for errors: '' @ setup_logging E)
                      (rows_alone E ?t ?b 0 rows)"
    using assms(1,2) run' by (simp add: main_def read_csv_data_def Let_def)
  have calls: "map Some (http_calls (rows_alone E ?t ?b k rows)) = map (row_request E ?t ?b) rows"
    if "\<forall>r \<in> set rows. well_formed_row r" for k
    using that
  proof (induction rows arbitrary: k)
    case Nil
    then show ?case by (simp add: initial_state_def)
  next
    case (Cons r rs)
    then obtain q where "row_request E ?t ?b r = Some q"
      "http_calls (row_alone E ?t ?b k r) = [q]"
      using row_alone_calls [of r E ?t ?b k] by auto
    with Cons show ?case by (simp add: rows_alone_Cons)
  qed
  have c1: "map Some (http_calls (main E)) = map (row_request E ?t ?b) rows"
    using calls [OF assms(3), of 0] by (simp add: m)
  have c2: "snd (process_rows E ?t ?b rows initial_state) = None"
    by (simp add: run')
  have c3: "stdout (main E)
           = concat (map (\<lambda>(i, r). stdout (row_alone E ?t ?b i r)) (enumerate 0 rows))
             @ [''Process completed. Log file for errors: '' @ setup_logging E]"
    by (simp add: m py_print_def rows_alone_def)
  have c4: "logfile (main E)
           = concat (map (\<lambda>(i, r). logfile (row_alone E ?t ?b i r)) (enumerate 0 rows))"
    by (simp add: m py_print_def rows_alone_def)
  have c5: "\<forall>i E'. network E' i = network E i \<and> fmt E' = fmt E \<longrightarrow>
           row_alone E' ?t ?b i = row_alone E ?t ?b i"
    by (intro allI impI ext row_alone_cong) simp_all
  from c1 c2 c3 c4 c5 show ?thesis by blast
qed

lemmas example_defs =
  example_env_def example_config_def example_fmt_def row_A1_def row_B2_def row_C3_def
  three_failures_def code_response_def html_response_def dq_def

lemmas config_eval =
  read_config_def read_config_body_def config_read_def config_get_def read_csv_data_def

lemmas row_eval =
  process_row_def row_get_def pad_occupation_value_def payload_def update_occupation_def
  occupation_request_def request_failure_def report_result_def classify_def
  code_is_zero_def error_details_def log_success_def log_failure_def logging_error_def
  py_print_def py_str_def dict_get_def initial_state_def Let_def

theorem per_row_independence_witness:
  "length (http_calls (main (example_env example_config [row_A1, row_B2, row_C3] three_failures))) = 3
   \<and> logfile (main (example_env example_config [row_A1, row_B2, row_C3] three_failures))
       = [''Failed to update occupation for applicant A1'',
          ''Failed to update occupation for applicant B2'',
          ''Failed to update occupation for applicant C3 - Error code: 5, Description: Unknown error, Data: Unknown data'']
   \<and> last (stdout (main (example_env example_config [row_A1, row_B2, row_C3] three_failures)))
       = ''Process completed. Log file for errors: log/occupation_update_errors_20250102_030405.log''"
proof -
  let ?rows = "[row_A1, row_B2, row_C3]"
  let ?E = "example_env example_config ?rows three_failures"
  let ?config = "\<lparr>jwt_token = ''Bearer abc'', api_base_url = ''https://cms.example''\<rparr>"
  have h1: "read_config (config_file ?E) = Inr ?config"
    by (simp add: example_defs config_eval)
  have h2: "csv_file ?E = Inr ?rows"
    by (simp add: example_env_def)
  have h3: "\<forall>r \<in> set ?rows. well_formed_row r"
    by (simp add: well_formed_row_def row_A1_def row_B2_def row_C3_def)
  have h4: "\<forall>i < length ?rows. \<forall>q. listed_outcome (network ?E i q)"
    by (simp add: listed_outcome_def example_defs)
  note t = per_row_independence [OF h1 h2 h3 h4]
  note t1 = t [THEN conjunct1]
  note t3 = t [THEN conjunct2, THEN conjunct2, THEN conjunct1]
  note t4 = t [THEN conjunct2, THEN conjunct2, THEN conjunct2, THEN conjunct1]
  have a: "logfile (row_alone ?E ''Bearer abc'' ''https://cms.example'' 0 row_A1)
      = [''Failed to update occupation for applicant A1'']"
    by (simp add: row_alone_def shift_network_def example_defs row_eval normalize_eval)
  have b: "logfile (row_alone ?E ''Bearer abc'' ''https://cms.example'' (Suc 0) row_B2)
      = [''Failed to update occupation for applicant B2'']"
    by (simp add: row_alone_def shift_network_def example_defs row_eval normalize_eval)
  have c: "logfile (row_alone ?E ''Bearer abc'' ''https://cms.example'' (Suc (Suc 0)) row_C3)
      = [''Failed to update occupation for applicant C3 - Error code: 5, Description: Unknown error, Data: Unknown data'']"
    by (simp add: row_alone_def shift_network_def example_defs row_eval normalize_eval)
  have "logfile (main ?E)
      = concat (map (\<lambda>(i, r). logfile (row_alone ?E ''Bearer abc'' ''https://cms.example'' i r))
                  (enumerate 0 ?rows))"
    using t4 by simp
  then have l: "logfile (main ?E) = [''Failed to update occupation for applicant A1'',
          ''Failed to update occupation for applicant B2'',
          ''Failed to update occupation for applicant C3 - Error code: 5, Description: Unknown error, Data: Unknown data'']"
    by (simp add: a b c)
  have "map Some (http_calls (main ?E))
      = map (row_request ?E ''Bearer abc'' ''https://cms.example'') ?rows"
    using t1 by simp
  then have "length (map Some (http_calls (main ?E))) = 3"
    by simp
  then have n: "length (http_calls (main ?E)) = 3" by simp
  have "stdout (main ?E)
      = concat (map (\<lambda>(i, r). stdout (row_alone ?E ''Bearer abc'' ''https://cms.example'' i r))
                  (enumerate 0 ?rows))
        @ [''Process completed. Log file for errors: '' @ setup_logging ?E]"
    using t3 by simp
  then have "last (stdout (main ?E)) = ''Process completed. Log file for errors: '' @ setup_logging ?E"
    by (simp only: last_snoc)
  then have e: "last (stdout (main ?E))
       = ''Process completed. Log file for errors: log/occupation_update_errors_20250102_030405.log''"
    by (simp add: setup_logging_def example_env_def)
  from n l e show ?thesis by blast
qed

section \<open>Where a row ends the run\<close>

text \<open>
  Outside the rows and answers above, an exception leaves the loop and \<open>main\<close> reports
  it: a row whose occupation cell is empty has no \<^verbatim>\<open>isdigit\<close>, and a JSON body that is
  a number is no container.
\<close>

lemma empty_occupation_cell_ends_run:
  "process_rows E token base
     [[(''Applican ID'', PStr ''A0''), (''Expected employment key'', PStr ''E9''),
       (''Expected occupation key'', PFloat NaN)], row_A1] st
   = (st, Some (AttributeError (quoted ''float'' @ '' object has no attribute '' @ quoted ''isdigit'')))"
  by (simp add: process_row_def row_get_def pad_occupation_value_def)

lemma number_body_ends_run:
  "classify (PInt 5) = Inl (TypeError (''argument of type '' @ quoted ''int'' @ '' is not iterable''))"
  by (simp add: classify_def code_is_zero_def)

lemma main_loaded:
  assumes "read_config (config_file E) = Inr config" and "csv_file E = Inr rows"
  shows "main E =
     (case process_rows E (jwt_token config) (api_base_url config) rows initial_state of
        (st, Some e) \<Rightarrow> log_error (''Error in main process: '' @ str_exn e) st
      | (st, None) \<Rightarrow>
          py_print (''Process completed. Log file for errors: '' @ setup_logging E) st)"
  using assms by (simp add: main_def read_csv_data_def Let_def)

text \<open>
  C4 as stated fails: in a frame of three rows whose second row has an empty occupation
  cell, with every call answered by the code 0, the \<^verbatim>\<open>AttributeError\<close> of line 155
  leaves the loop; the run makes the call of the first row only and ends with the
  error of \<open>main\<close>'s handler, so the third row gets no call.
\<close>

theorem empty_cell_stops_the_run:
  "length [row_A1, row_empty_key, row_B2] = 3
   \<and> length (http_calls (main (example_env example_config [row_A1, row_empty_key, row_B2]
                                  (answering (Responds (code_response 200 ''OK'' ''0'')))))) = 1
   \<and> map req_url (http_calls (main (example_env example_config [row_A1, row_empty_key, row_B2]
                                  (answering (Responds (code_response 200 ''OK'' ''0''))))))
       = [''https://cms.example/cms/v2/applicants/A1/occupation'']
   \<and> last (stdout (main (example_env example_config [row_A1, row_empty_key, row_B2]
                                  (answering (Responds (code_response 200 ''OK'' ''0''))))))
       = ''Error in main process: '' @ quoted ''float'' @ '' object has no attribute ''
         @ quoted ''isdigit''"
proof -
  let ?E = "example_env example_config [row_A1, row_empty_key, row_B2]
              (answering (Responds (code_response 200 ''OK'' ''0'')))"
  let ?config = "\<lparr>jwt_token = ''Bearer abc'', api_base_url = ''https://cms.example''\<rparr>"
  let ?e = "AttributeError (quoted ''float'' @ '' object has no attribute '' @ quoted ''isdigit'')"
  have c: "read_config (config_file ?E) = Inr ?config"
    by (simp add: example_defs config_eval)
  have d: "csv_file ?E = Inr [row_A1, row_empty_key, row_B2]"
    by (simp add: example_env_def)
  have r1: "process_row ?E ''Bearer abc'' ''https://cms.example'' row_A1 initial_state
      = (\<lparr>stdout = [''<dict>'', ''Successfully updated occupation for applicant A1''],
          logfile = [],
          http_calls = [occupation_request ?E (PStr ''A1'') (payload (PStr ''E9'') ''007'')
                          ''Bearer abc'' ''https://cms.example'']\<rparr>, None)"
    by (simp add: example_defs answering_def row_eval normalize_eval)
  have r2: "process_row ?E ''Bearer abc'' ''https://cms.example'' row_empty_key st = (st, Some ?e)" for st
    by (simp add: process_row_def row_get_def pad_occupation_value_def row_empty_key_def)
  have p: "process_rows ?E (jwt_token ?config) (api_base_url ?config)
             [row_A1, row_empty_key, row_B2] initial_state
      = (\<lparr>stdout = [''<dict>'', ''Successfully updated occupation for applicant A1''],
          logfile = [],
          http_calls = [occupation_request ?E (PStr ''A1'') (payload (PStr ''E9'') ''007'')
                          ''Bearer abc'' ''https://cms.example'']\<rparr>, Some ?e)"
    by (simp add: r1 r2)
  have m: "main ?E = log_error (''Error in main process: '' @ str_exn ?e)
      \<lparr>stdout = [''<dict>'', ''Successfully updated occupation for applicant A1''],
          logfile = [],
          http_calls = [occupation_request ?E (PStr ''A1'') (payload (PStr ''E9'') ''007'')
                          ''Bearer abc'' ''https://cms.example'']\<rparr>"
    using main_loaded [OF c d, unfolded p] by simp
  show ?thesis
    by (simp add: m log_error_def logging_error_def py_print_def occupation_request_def
          py_str_def)
qed

section \<open>Requests, results and the error log\<close>

text \<open>
  C3. For a row with the three columns and a textual occupation key, the one call the
  row makes is a PUT to \<open>{base_url}/cms/v2/applicants/{applicant_id}/occupation\<close> with the
  headers \<open>Authorization: {jwt_token}\<close> and \<open>Content-Type: application/json\<close> and the
  body \<open>{employment_key, occupation_key, is_public_politician: false,
  is_criminal_investigation: false}\<close>, the occupation key normalized; \<open>main\<close> passes the
  token and the base URL of the configuration. The witness is the row A1, E9, 7 of the
  specification, whose payload carries the occupation key 007.
\<close>

theorem request_construction:
  assumes "map_of r ''Applican ID'' = Some applicant_id"
    and "map_of r ''Expected occupation key'' = Some (PStr occupation_key)"
    and "map_of r ''Expected employment key'' = Some employment_key"
  shows "http_calls (fst (process_row E token base r st)) = http_calls st @
     [\<lparr>req_method = PUT,
       req_url = base @ ''/cms/v2/applicants/'' @ py_str E applicant_id @ ''/occupation'',
       req_headers = [(''Authorization'', token), (''Content-Type'', ''application/json'')],
       req_json = PDict [(''employment_key'', employment_key),
                         (''occupation_key'', PStr (normalize_occupation_value occupation_key)),
                         (''is_public_politician'', PBool False),
                         (''is_criminal_investigation'', PBool False)]\<rparr>]"
proof -
  have "well_formed_row r"
    using assms by (simp add: well_formed_row_def)
  then obtain q where q: "row_request E token base r = Some q"
    "http_calls (fst (process_row E token base r st)) = http_calls st @ [q]"
    using process_row_calls by blast
  have "row_request E token base r = Some (occupation_request E applicant_id
          (payload employment_key (normalize_occupation_value occupation_key)) token base)"
    using assms by (simp add: row_request_def)
  with q show ?thesis
    by (simp add: occupation_request_def payload_def)
qed

theorem request_construction_witness:
  "http_calls (fst (process_row (example_env example_config [row_A1] (\<lambda>n q. Responds (code_response 200 ''OK'' ''0'')))
        ''Bearer abc'' ''https://cms.example'' row_A1 initial_state)) =
     [\<lparr>req_method = PUT,
       req_url = ''https://cms.example/cms/v2/applicants/A1/occupation'',
       req_headers = [(''Authorization'', ''Bearer abc''), (''Content-Type'', ''application/json'')],
       req_json = PDict [(''employment_key'', PStr ''E9''),
                         (''occupation_key'', PStr ''007''),
                         (''is_public_politician'', PBool False),
                         (''is_criminal_investigation'', PBool False)]\<rparr>]"
proof -
  have c: "map_of row_A1 ''Applican ID'' = Some (PStr ''A1'')"
    "map_of row_A1 ''Expected occupation key'' = Some (PStr ''7'')"
    "map_of row_A1 ''Expected employment key'' = Some (PStr ''E9'')"
    by (simp_all add: row_A1_def)
  have v: "normalize_occupation_value ''7'' = ''007''"
    by (simp add: normalize_eval)
  show ?thesis
    using request_construction [OF c, of _ "''Bearer abc''" "''https://cms.example''" initial_state]
    by (simp add: v py_str_def initial_state_def)
qed

lemma logfile_print [simp]: "logfile (py_print m st) = logfile st"
  by (simp add: py_print_def)

lemma stdout_print [simp]: "stdout (py_print m st) = stdout st @ [m]"
  by (simp add: py_print_def)

lemma logfile_logging_error [simp]: "logfile (logging_error m st) = logfile st @ [m]"
  by (simp add: logging_error_def)

lemma stdout_logging_error [simp]: "stdout (logging_error m st) = stdout st"
  by (simp add: logging_error_def)

lemma update_occupation_raises:
  assumes "network E (length (http_calls st)) (occupation_request E a data token base) = Raises e"
    and "is_RequestException e"
  shows "update_occupation E a data token base st =
     (py_print (''Error updating occupation for applicant '' @ py_str E a @ '': '' @ str_exn e)
        (st\<lparr>http_calls := http_calls st @ [occupation_request E a data token base]\<rparr>),
      Inr (PDict [(''success'', PBool False),
                  (''error_code'', PStr ''RequestException''),
                  (''error_message'', PStr (str_exn e))]))"
  using assms by (simp add: update_occupation_def request_failure_def Let_def)

lemma update_occupation_json:
  assumes "network E (length (http_calls st)) (occupation_request E a data token base)
             = Responds response"
    and "resp_json response = Inr result"
  shows "update_occupation E a data token base st =
     (st\<lparr>http_calls := http_calls st @ [occupation_request E a data token base]\<rparr>, Inr result)"
  using assms by (simp add: update_occupation_def Let_def)

lemma update_occupation_not_json:
  assumes "network E (length (http_calls st)) (occupation_request E a data token base)
             = Responds response"
    and "resp_json response = Inl e" and "is_ValueError e"
  shows "update_occupation E a data token base st =
     (st\<lparr>http_calls := http_calls st @ [occupation_request E a data token base]\<rparr>,
      Inr (PDict [(''success'', PBool False),
                  (''error_code'', PInt (int (status_code response))),
                  (''error_message'', PStr (resp_text response))]))"
  using assms by (simp add: update_occupation_def Let_def)

lemma add_comment_raises:
  assumes "network E (length (http_calls st)) (comment_request E a k data token base) = Raises e"
    and "is_RequestException e"
  shows "add_comment E a k data token base st =
     (py_print (''Error adding comment for applicant '' @ py_str E a @ '', institution ''
                  @ py_str E k @ '': '' @ str_exn e)
        (st\<lparr>http_calls := http_calls st @ [comment_request E a k data token base]\<rparr>),
      Inr PNone)"
  using assms by (simp add: add_comment_def comment_failure_def Let_def)

lemma report_result_success:
  assumes "map_of d ''code'' = Some (PStr ''0'')"
  shows "report_result E a (PDict d) st =
     (py_print (''Successfully updated occupation for applicant '' @ py_str E a) st, None)"
  using assms by (simp add: report_result_def classify_dict log_success_def Let_def)

lemma report_result_failure:
  assumes "map_of d ''code'' \<noteq> Some (PStr ''0'')"
  shows "report_result E a (PDict d) st =
     (logging_error (''Failed to update occupation for applicant '' @ py_str E a
                       @ error_details E (PDict d))
        (py_print (''Failed to update occupation for applicant '' @ py_str E a
                       @ error_details E (PDict d)) st), None)"
  using assms by (simp add: report_result_def classify_dict log_failure_def Let_def)

lemma error_details_no_code:
  "map_of d ''code'' = None \<Longrightarrow> error_details E (PDict d) = []"
  by (simp add: error_details_def)

lemma report_result_comment_none:
  "report_result_comment E a PNone st =
     (logging_error (''Failed to add comment for applicant: '' @ py_str E a)
        (py_print (''Failed to add comment for applicant: '' @ py_str E a) st), None)"
  by (simp add: report_result_comment_def classify_def code_is_zero_def
        log_failure_comment_def error_details_def Let_def)

text \<open>
  C5. When the call raises a \<^verbatim>\<open>RequestException\<close>, \<^verbatim>\<open>update_occupation\<close> prints the
  error and returns the dictionary \<open>{success: False, error_code: "RequestException",
  error_message: str(e)}\<close>; that dictionary is classified a failure and one line, with
  no details, goes to the error log. \<^verbatim>\<open>add_comment\<close> returns \<open>None\<close>; \<open>None\<close> is
  classified a failure, has no error details, and one line with no details goes to the
  error log.
\<close>

theorem transport_failure_shapes:
  "(network E (length (http_calls st)) (occupation_request E a data token base) = Raises e
      \<and> is_RequestException e \<longrightarrow>
      snd (update_occupation E a data token base st)
        = Inr (PDict [(''success'', PBool False),
                      (''error_code'', PStr ''RequestException''),
                      (''error_message'', PStr (str_exn e))])
      \<and> stdout (fst (update_occupation E a data token base st))
        = stdout st @ [''Error updating occupation for applicant '' @ py_str E a
                        @ '': '' @ str_exn e])
   \<and> classify (PDict [(''success'', PBool False),
                       (''error_code'', PStr ''RequestException''),
                       (''error_message'', PStr m)]) = Inr Failure
   \<and> report_result E a (PDict [(''success'', PBool False),
                                (''error_code'', PStr ''RequestException''),
                                (''error_message'', PStr m)]) st'
        = (st'\<lparr>stdout := stdout st' @ [''Failed to update occupation for applicant '' @ py_str E a],
               logfile := logfile st' @ [''Failed to update occupation for applicant '' @ py_str E a]\<rparr>,
           None)
   \<and> (network E (length (http_calls st)) (comment_request E a k comment_data token base) = Raises e
      \<and> is_RequestException e \<longrightarrow>
      snd (add_comment E a k comment_data token base st) = Inr PNone)
   \<and> classify PNone = Inr Failure
   \<and> error_details E PNone = []
   \<and> report_result_comment E a PNone st'
        = (st'\<lparr>stdout := stdout st' @ [''Failed to add comment for applicant: '' @ py_str E a],
               logfile := logfile st' @ [''Failed to add comment for applicant: '' @ py_str E a]\<rparr>,
           None)"
proof -
  let ?synthetic = "PDict [(''success'', PBool False),
                       (''error_code'', PStr ''RequestException''),
                       (''error_message'', PStr m)]"
  have p1: "network E (length (http_calls st)) (occupation_request E a data token base) = Raises e
      \<and> is_RequestException e \<longrightarrow>
      snd (update_occupation E a data token base st)
        = Inr (PDict [(''success'', PBool False),
                      (''error_code'', PStr ''RequestException''),
                      (''error_message'', PStr (str_exn e))])
      \<and> stdout (fst (update_occupation E a data token base st))
        = stdout st @ [''Error updating occupation for applicant '' @ py_str E a
                        @ '': '' @ str_exn e]"
    by (simp add: update_occupation_raises)
  have p2: "classify ?synthetic = Inr Failure"
    by (simp add: classify_dict)
  have p3: "report_result E a ?synthetic st'
        = (st'\<lparr>stdout := stdout st' @ [''Failed to update occupation for applicant '' @ py_str E a],
               logfile := logfile st' @ [''Failed to update occupation for applicant '' @ py_str E a]\<rparr>,
           None)"
    by (simp add: report_result_failure error_details_no_code py_print_def logging_error_def)
  have p4: "network E (length (http_calls st)) (comment_request E a k comment_data token base) = Raises e
      \<and> is_RequestException e \<longrightarrow>
      snd (add_comment E a k comment_data token base st) = Inr PNone"
    by (simp add: add_comment_raises)
  have p5: "classify PNone = Inr Failure"
    by (simp add: classify_def code_is_zero_def)
  have p6: "error_details E PNone = []"
    by (simp add: error_details_def)
  have p7: "report_result_comment E a PNone st'
        = (st'\<lparr>stdout := stdout st' @ [''Failed to add comment for applicant: '' @ py_str E a],
               logfile := logfile st' @ [''Failed to add comment for applicant: '' @ py_str E a]\<rparr>,
           None)"
    by (simp add: report_result_comment_none py_print_def logging_error_def)
  from p1 p2 p3 p4 p5 p6 p7 show ?thesis by blast
qed


theorem transport_failure_shapes_witness:
  "snd (update_occupation (example_env example_config [row_A1] (\<lambda>n q. Raises (RequestException ''Connection refused'')))
          (PStr ''A1'') (payload (PStr ''E9'') ''007'') ''Bearer abc'' ''https://cms.example'' initial_state)
     = Inr (PDict [(''success'', PBool False),
                   (''error_code'', PStr ''RequestException''),
                   (''error_message'', PStr ''Connection refused'')])
   \<and> snd (add_comment (example_env example_config [row_A1] (\<lambda>n q. Raises (RequestException ''Connection refused'')))
          (PStr ''A1'') (PStr ''TW'') comment_data ''Bearer abc'' ''https://cms.example'' initial_state)
     = Inr PNone
   \<and> logfile (fst (report_result (example_env example_config [row_A1] (\<lambda>n q. Raises (RequestException ''Connection refused'')))
          (PStr ''A1'')
          (PDict [(''success'', PBool False),
                  (''error_code'', PStr ''RequestException''),
                  (''error_message'', PStr ''Connection refused'')]) initial_state))
     = [''Failed to update occupation for applicant A1'']
   \<and> logfile (fst (report_result_comment (example_env example_config [row_A1] (\<lambda>n q. Raises (RequestException ''Connection refused'')))
          (PStr ''A1'') PNone initial_state))
     = [''Failed to add comment for applicant: A1'']"
proof -
  let ?E = "example_env example_config [row_A1] (\<lambda>n q. Raises (RequestException ''Connection refused''))"
  let ?e = "RequestException ''Connection refused''"
  have n: "network ?E (length (http_calls initial_state)) q = Raises ?e" for q
    by (simp add: example_env_def)
  have r: "is_RequestException ?e" by simp
  note t = transport_failure_shapes [of ?E initial_state "PStr ''A1''"
      "payload (PStr ''E9'') ''007''" "''Bearer abc''" "''https://cms.example''" ?e
      "''Connection refused''" initial_state "PStr ''TW''"]
  from t n r show ?thesis
    by (simp add: py_str_def initial_state_def)
qed

text \<open>
  C6. For a row of the data model: when the response is a JSON object whose code is
  the string 0, the row is classified a success, nothing is written to the error log
  and the success message is printed; when the response is a JSON object whose code is
  anything else or missing, or the call raises a \<^verbatim>\<open>RequestException\<close>, the row is
  classified a failure and one record is written to the error log, whose line in the
  file contains the applicant identifier.
\<close>

theorem error_log_invariant:
  assumes "map_of r ''Applican ID'' = Some a"
    and "well_formed_row r"
    and "row_request E token base r = Some request"
  shows
    "(network E (length (http_calls st)) request = Responds response
        \<and> resp_json response = Inr (PDict d) \<and> map_of d ''code'' = Some (PStr ''0'') \<longrightarrow>
        classify (PDict d) = Inr Success
        \<and> snd (process_row E token base r st) = None
        \<and> logfile (fst (process_row E token base r st)) = logfile st
        \<and> stdout (fst (process_row E token base r st))
          = stdout st @ [py_str E (req_json request),
                         ''Successfully updated occupation for applicant '' @ py_str E a])
     \<and> (network E (length (http_calls st)) request = Responds response
        \<and> resp_json response = Inr (PDict d) \<and> map_of d ''code'' \<noteq> Some (PStr ''0'') \<longrightarrow>
        classify (PDict d) = Inr Failure
        \<and> snd (process_row E token base r st) = None
        \<and> logfile (fst (process_row E token base r st))
          = logfile st @ [''Failed to update occupation for applicant '' @ py_str E a
                          @ error_details E (PDict d)])
     \<and> (network E (length (http_calls st)) request = Raises e \<and> is_RequestException e \<longrightarrow>
        snd (process_row E token base r st) = None
        \<and> logfile (fst (process_row E token base r st))
          = logfile st @ [''Failed to update occupation for applicant '' @ py_str E a])
     \<and> sublist (py_str E a)
          (log_line asctime (''Failed to update occupation for applicant '' @ py_str E a @ details))"
proof -
  from assms(2) obtain a' s k where c: "map_of r ''Applican ID'' = Some a'"
    "map_of r ''Expected occupation key'' = Some (PStr s)"
    "map_of r ''Expected employment key'' = Some k"
    by (rule well_formed_rowE)
  with assms(1) have a': "a' = a" by simp
  let ?data = "payload k (normalize_occupation_value s)"
  let ?st1 = "py_print (py_str E ?data) st"
  have rq: "request = occupation_request E a ?data token base"
    using assms(3) c a' by (simp add: row_request_def)
  have dj: "req_json request = ?data"
    by (simp add: rq occupation_request_def)
  have pr: "process_row E token base r st =
     (case update_occupation E a ?data token base ?st1 of
        (st2, Inl e) \<Rightarrow> (st2, Some e)
      | (st2, Inr result) \<Rightarrow> report_result E a result st2)"
    using process_row_columns [OF c, of E token base st] by (simp add: a' Let_def)
  have len: "length (http_calls ?st1) = length (http_calls st)" by simp
  have p1: "network E (length (http_calls st)) request = Responds response
        \<and> resp_json response = Inr (PDict d) \<and> map_of d ''code'' = Some (PStr ''0'') \<longrightarrow>
        classify (PDict d) = Inr Success
        \<and> snd (process_row E token base r st) = None
        \<and> logfile (fst (process_row E token base r st)) = logfile st
        \<and> stdout (fst (process_row E token base r st))
          = stdout st @ [py_str E (req_json request),
                         ''Successfully updated occupation for applicant '' @ py_str E a]"
  proof (intro impI, elim conjE)
    assume n: "network E (length (http_calls st)) request = Responds response"
      and j: "resp_json response = Inr (PDict d)"
      and z: "map_of d ''code'' = Some (PStr ''0'')"
    have "network E (length (http_calls ?st1)) (occupation_request E a ?data token base)
            = Responds response"
      using n by (simp add: rq)
    from update_occupation_json [OF this j] z
    have "process_row E token base r st =
        (py_print (''Successfully updated occupation for applicant '' @ py_str E a)
           (?st1\<lparr>http_calls := http_calls ?st1 @ [occupation_request E a ?data token base]\<rparr>), None)"
      by (simp add: pr report_result_success)
    with z show "classify (PDict d) = Inr Success
        \<and> snd (process_row E token base r st) = None
        \<and> logfile (fst (process_row E token base r st)) = logfile st
        \<and> stdout (fst (process_row E token base r st))
          = stdout st @ [py_str E (req_json request),
                         ''Successfully updated occupation for applicant '' @ py_str E a]"
      by (simp add: classify_dict dj)
  qed
  have p2: "network E (length (http_calls st)) request = Responds response
        \<and> resp_json response = Inr (PDict d) \<and> map_of d ''code'' \<noteq> Some (PStr ''0'') \<longrightarrow>
        classify (PDict d) = Inr Failure
        \<and> snd (process_row E token base r st) = None
        \<and> logfile (fst (process_row E token base r st))
          = logfile st @ [''Failed to update occupation for applicant '' @ py_str E a
                          @ error_details E (PDict d)]"
  proof (intro impI, elim conjE)
    assume n: "network E (length (http_calls st)) request = Responds response"
      and j: "resp_json response = Inr (PDict d)"
      and z: "map_of d ''code'' \<noteq> Some (PStr ''0'')"
    have "network E (length (http_calls ?st1)) (occupation_request E a ?data token base)
            = Responds response"
      using n by (simp add: rq)
    from update_occupation_json [OF this j] z
    have "process_row E token base r st =
        (logging_error (''Failed to update occupation for applicant '' @ py_str E a
                       @ error_details E (PDict d))
          (py_print (''Failed to update occupation for applicant '' @ py_str E a
                       @ error_details E (PDict d))
           (?st1\<lparr>http_calls := http_calls ?st1 @ [occupation_request E a ?data token base]\<rparr>)), None)"
      by (simp add: pr report_result_failure)
    with z show "classify (PDict d) = Inr Failure
        \<and> snd (process_row E token base r st) = None
        \<and> logfile (fst (process_row E token base r st))
          = logfile st @ [''Failed to update occupation for applicant '' @ py_str E a
                          @ error_details E (PDict d)]"
      by (simp add: classify_dict)
  qed
  have p3: "network E (length (http_calls st)) request = Raises e \<and> is_RequestException e \<longrightarrow>
        snd (process_row E token base r st) = None
        \<and> logfile (fst (process_row E token base r st))
          = logfile st @ [''Failed to update occupation for applicant '' @ py_str E a]"
  proof (intro impI, elim conjE)
    assume n: "network E (length (http_calls st)) request = Raises e"
      and x: "is_RequestException e"
    have "network E (length (http_calls ?st1)) (occupation_request E a ?data token base)
            = Raises e"
      using n by (simp add: rq)
    from update_occupation_raises [OF this x]
    show "snd (process_row E token base r st) = None
        \<and> logfile (fst (process_row E token base r st))
          = logfile st @ [''Failed to update occupation for applicant '' @ py_str E a]"
      by (simp add: pr report_result_failure error_details_no_code)
  qed
  have p4: "sublist (py_str E a)
          (log_line asctime (''Failed to update occupation for applicant '' @ py_str E a @ details))"
    unfolding log_line_def
    by (metis append.assoc sublist_appendI)
  from p1 p2 p3 p4 show ?thesis by blast
qed

lemma py_str_PStr [simp]: "py_str E (PStr s) = s"
  by (simp add: py_str_def)

theorem error_log_invariant_witness:
  "logfile (fst (process_row (example_env example_config [row_A1]
                    (answering (Responds (code_response 200 ''OK'' ''0''))))
                  ''Bearer abc'' ''https://cms.example'' row_A1 initial_state)) = []
   \<and> stdout (fst (process_row (example_env example_config [row_A1]
                    (answering (Responds (code_response 200 ''OK'' ''0''))))
                  ''Bearer abc'' ''https://cms.example'' row_A1 initial_state))
       = [''<dict>'', ''Successfully updated occupation for applicant A1'']
   \<and> logfile (fst (process_row (example_env example_config [row_A1]
                    (answering (Responds invalid_key_response)))
                  ''Bearer abc'' ''https://cms.example'' row_A1 initial_state))
       = [''Failed to update occupation for applicant A1 - Error code: 5, Description: invalid key, Data: Unknown data'']
   \<and> logfile (fst (process_row (example_env example_config [row_A1]
                    (answering (Raises (RequestException ''Connection refused''))))
                  ''Bearer abc'' ''https://cms.example'' row_A1 initial_state))
       = [''Failed to update occupation for applicant A1'']"
proof -
  let ?t = "''Bearer abc''" and ?b = "''https://cms.example''"
  let ?ok = "code_response 200 ''OK'' ''0''"
  let ?e = "RequestException ''Connection refused''"
  let ?E1 = "example_env example_config [row_A1] (answering (Responds ?ok))"
  let ?E2 = "example_env example_config [row_A1] (answering (Responds invalid_key_response))"
  let ?E3 = "example_env example_config [row_A1] (answering (Raises ?e))"
  have a: "map_of row_A1 ''Applican ID'' = Some (PStr ''A1'')"
    by (simp add: row_A1_def)
  have w: "well_formed_row row_A1"
    by (simp add: well_formed_row_def row_A1_def)
  have q: "row_request E ?t ?b row_A1
      = Some (occupation_request E (PStr ''A1'')
                (payload (PStr ''E9'') (normalize_occupation_value ''7'')) ?t ?b)" for E
    by (simp add: row_request_def row_A1_def)
  have n1: "network ?E1 (length (http_calls initial_state)) x = Responds ?ok" for x
    by (simp add: example_env_def answering_def)
  have j1: "resp_json ?ok = Inr (PDict [(''code'', PStr ''0'')])"
    by (simp add: code_response_def)
  have n2: "network ?E2 (length (http_calls initial_state)) x = Responds invalid_key_response" for x
    by (simp add: example_env_def answering_def)
  have j2: "resp_json invalid_key_response
      = Inr (PDict [(''code'', PStr ''5''), (''desc'', PStr ''invalid key'')])"
    by (simp add: invalid_key_response_def)
  have n3: "network ?E3 (length (http_calls initial_state)) x = Raises ?e" for x
    by (simp add: example_env_def answering_def)
  have d: "py_str ?E1 (PDict x) = ''<dict>''" for x
    by (simp add: py_str_def example_env_def example_fmt_def)
  note t1 = error_log_invariant [OF a w q, of ?E1 initial_state ?ok "[(''code'', PStr ''0'')]",
      THEN conjunct1]
  note t2 = error_log_invariant [OF a w q, of ?E2 initial_state invalid_key_response
      "[(''code'', PStr ''5''), (''desc'', PStr ''invalid key'')]",
      THEN conjunct2, THEN conjunct1]
  note t3 = error_log_invariant [OF a w q, of ?E3 initial_state _ _ ?e,
      THEN conjunct2, THEN conjunct2, THEN conjunct1]
  have r1: "logfile (fst (process_row ?E1 ?t ?b row_A1 initial_state)) = []
      \<and> stdout (fst (process_row ?E1 ?t ?b row_A1 initial_state))
          = [''<dict>'', ''Successfully updated occupation for applicant A1'']"
    using t1 n1 j1 by (simp add: d payload_def occupation_request_def initial_state_def)
  have r2: "logfile (fst (process_row ?E2 ?t ?b row_A1 initial_state))
       = [''Failed to update occupation for applicant A1 - Error code: 5, Description: invalid key, Data: Unknown data'']"
    using t2 n2 j2 by (simp add: error_details_def dict_get_def initial_state_def)
  have r3: "logfile (fst (process_row ?E3 ?t ?b row_A1 initial_state))
       = [''Failed to update occupation for applicant A1'']"
    using t3 n3 by (simp add: initial_state_def)
  from r1 r2 r3 show ?thesis by blast
qed

section \<open>Classification of the result\<close>

lemma row_verdict_json:
  assumes "network E (length (http_calls st)) (occupation_request E a data token base)
             = Responds response"
    and "resp_json response = Inr result"
  shows "row_verdict E a data token base st = classify result"
  by (simp add: row_verdict_def update_occupation_json [OF assms])

lemma row_verdict_not_json:
  assumes "network E (length (http_calls st)) (occupation_request E a data token base)
             = Responds response"
    and "resp_json response = Inl e" and "is_ValueError e"
  shows "row_verdict E a data token base st = Inr Failure"
  by (simp add: row_verdict_def update_occupation_not_json [OF assms] classify_dict)

text \<open>
  C2, as the code has it. The updater reads the body whatever the HTTP status is. For
  a response whose body is a JSON object, the row is classified a success exactly when
  the object has a code equal to the string 0, and a failure for any other code or
  none; a response whose body is not JSON is classified a failure. The status of the
  response plays no part.
\<close>

theorem result_classification:
  "(network E (length (http_calls st)) (occupation_request E a data token base) = Responds response
      \<and> resp_json response = Inr (PDict d) \<longrightarrow>
      row_verdict E a data token base st
        = Inr (if map_of d ''code'' = Some (PStr ''0'') then Success else Failure))
   \<and> (network E (length (http_calls st)) (occupation_request E a data token base) = Responds response
      \<and> resp_json response = Inl e \<and> is_ValueError e \<longrightarrow>
      row_verdict E a data token base st = Inr Failure)"
  by (simp add: row_verdict_json row_verdict_not_json classify_dict)

theorem result_classification_witness:
  "row_verdict (example_env example_config [row_A1] (answering (Responds (code_response 200 ''OK'' ''0''))))
       (PStr ''A1'') (payload (PStr ''E9'') ''007'') ''Bearer abc'' ''https://cms.example'' initial_state
     = Inr Success
   \<and> row_verdict (example_env example_config [row_A1] (answering (Responds invalid_key_response)))
       (PStr ''A1'') (payload (PStr ''E9'') ''007'') ''Bearer abc'' ''https://cms.example'' initial_state
     = Inr Failure
   \<and> row_verdict (example_env example_config [row_A1] (answering (Responds html_response)))
       (PStr ''A1'') (payload (PStr ''E9'') ''007'') ''Bearer abc'' ''https://cms.example'' initial_state
     = Inr Failure"
proof -
  let ?E1 = "example_env example_config [row_A1] (answering (Responds (code_response 200 ''OK'' ''0'')))"
  let ?E2 = "example_env example_config [row_A1] (answering (Responds invalid_key_response))"
  let ?E3 = "example_env example_config [row_A1] (answering (Responds html_response))"
  have n: "network (example_env example_config [row_A1] (answering x)) k q = x" for x k q
    by (simp add: example_env_def answering_def)
  have j1: "resp_json (code_response 200 ''OK'' ''0'') = Inr (PDict [(''code'', PStr ''0'')])"
    by (simp add: code_response_def)
  have j2: "resp_json invalid_key_response
      = Inr (PDict [(''code'', PStr ''5''), (''desc'', PStr ''invalid key'')])"
    by (simp add: invalid_key_response_def)
  have j3: "resp_json html_response = Inl (JSONDecodeError ''Expecting value: line 1 column 1 (char 0)'')"
    by (simp add: html_response_def)
  note t1 = result_classification [of ?E1 initial_state "PStr ''A1''" "payload (PStr ''E9'') ''007''"
      "''Bearer abc''" "''https://cms.example''" "code_response 200 ''OK'' ''0''"
      "[(''code'', PStr ''0'')]", THEN conjunct1]
  note t2 = result_classification [of ?E2 initial_state "PStr ''A1''" "payload (PStr ''E9'') ''007''"
      "''Bearer abc''" "''https://cms.example''" invalid_key_response
      "[(''code'', PStr ''5''), (''desc'', PStr ''invalid key'')]", THEN conjunct1]
  note t3 = result_classification [of ?E3 initial_state "PStr ''A1''" "payload (PStr ''E9'') ''007''"
      "''Bearer abc''" "''https://cms.example''" html_response _
      "JSONDecodeError ''Expecting value: line 1 column 1 (char 0)''", THEN conjunct2]
  have r1: "row_verdict ?E1 (PStr ''A1'') (payload (PStr ''E9'') ''007'') ''Bearer abc''
              ''https://cms.example'' initial_state = Inr Success"
    using t1 j1 by (simp add: n)
  have r2: "row_verdict ?E2 (PStr ''A1'') (payload (PStr ''E9'') ''007'') ''Bearer abc''
              ''https://cms.example'' initial_state = Inr Failure"
    using t2 j2 by (simp add: n)
  have r3: "row_verdict ?E3 (PStr ''A1'') (payload (PStr ''E9'') ''007'') ''Bearer abc''
              ''https://cms.example'' initial_state = Inr Failure"
    using t3 j3 by (simp add: n)
  from r1 r2 r3 show ?thesis by blast
qed

lemmas verdict_eval =
  row_verdict_def row_verdict_comment_def update_occupation_def add_comment_def
  occupation_request_def comment_request_def request_failure_def comment_failure_def
  raise_for_status_def classify_def code_is_zero_def Let_def

text \<open>
  C2 as stated fails: a response with status 500 whose body is \<^verbatim>\<open>{"code": "0"}\<close> is
  classified a success by the updater.
\<close>

theorem non_2xx_code_zero_is_success:
  "status_code (code_response 500 ''Internal Server Error'' ''0'') = 500
   \<and> resp_json (code_response 500 ''Internal Server Error'' ''0'') = Inr (PDict [(''code'', PStr ''0'')])
   \<and> row_verdict (example_env example_config [row_A1]
                    (answering (Responds (code_response 500 ''Internal Server Error'' ''0''))))
       (PStr ''A1'') (payload (PStr ''E9'') ''007'') ''Bearer abc'' ''https://cms.example'' initial_state
     = Inr Success"
  by (simp add: verdict_eval example_env_def answering_def code_response_def initial_state_def)

lemma add_comment_http_error:
  assumes "network E (length (http_calls st)) (comment_request E a k data token base)
             = Responds response"
    and "400 \<le> status_code response" and "status_code response < 600"
  shows "snd (add_comment E a k data token base st) = Inr PNone"
  using assms
  by (simp add: add_comment_def comment_failure_def raise_for_status_def Let_def)

lemma add_comment_json:
  assumes "network E (length (http_calls st)) (comment_request E a k data token base)
             = Responds response"
    and "\<not> (400 \<le> status_code response \<and> status_code response < 600)"
    and "resp_json response = Inr result"
  shows "snd (add_comment E a k data token base st) = Inr result"
  using assms
  by (auto simp: add_comment_def raise_for_status_def Let_def)

lemma row_verdict_comment_snd:
  "row_verdict_comment E a k token base st =
     (case snd (add_comment E a k comment_data token base st) of
        Inl e \<Rightarrow> Inl e | Inr result \<Rightarrow> classify result)"
  by (simp add: row_verdict_comment_def split: prod.splits sum.splits)

text \<open>
  C10, as the code has it. \<^verbatim>\<open>raise_for_status\<close> raises for the statuses 400 to 599,
  so the comment adder classifies every response with such a status a failure,
  whatever its body; for any other status the body decides. The updater reads the body
  whatever the status is: a response whose body is a JSON object with the code 0 is a
  success. So a response with a status from 400 to 599 and the code 0 is a success of
  the updater and a failure of the comment adder.
\<close>

theorem status_handling_differs:
  "(network E (length (http_calls st)) (comment_request E a k comment_data token base) = Responds response
      \<and> 400 \<le> status_code response \<and> status_code response < 600 \<longrightarrow>
      row_verdict_comment E a k token base st = Inr Failure)
   \<and> (network E (length (http_calls st)) (comment_request E a k comment_data token base) = Responds response
      \<and> \<not> (400 \<le> status_code response \<and> status_code response < 600)
      \<and> resp_json response = Inr (PDict d) \<longrightarrow>
      row_verdict_comment E a k token base st
        = Inr (if map_of d ''code'' = Some (PStr ''0'') then Success else Failure))
   \<and> (network E (length (http_calls st)) (occupation_request E a data token base) = Responds response
      \<and> resp_json response = Inr (PDict d) \<and> map_of d ''code'' = Some (PStr ''0'') \<longrightarrow>
      row_verdict E a data token base st = Inr Success)"
proof -
  have p1: "network E (length (http_calls st)) (comment_request E a k comment_data token base) = Responds response
      \<and> 400 \<le> status_code response \<and> status_code response < 600 \<longrightarrow>
      row_verdict_comment E a k token base st = Inr Failure"
    by (simp add: row_verdict_comment_snd add_comment_http_error classify_def code_is_zero_def)
  have p2: "network E (length (http_calls st)) (comment_request E a k comment_data token base) = Responds response
      \<and> \<not> (400 \<le> status_code response \<and> status_code response < 600)
      \<and> resp_json response = Inr (PDict d) \<longrightarrow>
      row_verdict_comment E a k token base st
        = Inr (if map_of d ''code'' = Some (PStr ''0'') then Success else Failure)"
  proof (intro impI, elim conjE)
    assume "network E (length (http_calls st)) (comment_request E a k comment_data token base) = Responds response"
      and "\<not> (400 \<le> status_code response \<and> status_code response < 600)"
      and "resp_json response = Inr (PDict d)"
    then have "snd (add_comment E a k comment_data token base st) = Inr (PDict d)"
      by (rule add_comment_json)
    then show "row_verdict_comment E a k token base st
        = Inr (if map_of d ''code'' = Some (PStr ''0'') then Success else Failure)"
      by (simp add: row_verdict_comment_snd classify_dict)
  qed
  have p3: "network E (length (http_calls st)) (occupation_request E a data token base) = Responds response
      \<and> resp_json response = Inr (PDict d) \<and> map_of d ''code'' = Some (PStr ''0'') \<longrightarrow>
      row_verdict E a data token base st = Inr Success"
    by (simp add: row_verdict_json classify_dict)
  from p1 p2 p3 show ?thesis by blast
qed

theorem status_handling_differs_witness:
  "row_verdict_comment (example_env example_config [row_A1]
                    (answering (Responds (code_response 500 ''Internal Server Error'' ''0''))))
       (PStr ''A1'') (PStr ''TW'') ''Bearer abc'' ''https://cms.example'' initial_state
     = Inr Failure
   \<and> row_verdict_comment (example_env example_config [row_A1]
                    (answering (Responds (code_response 200 ''OK'' ''0''))))
       (PStr ''A1'') (PStr ''TW'') ''Bearer abc'' ''https://cms.example'' initial_state
     = Inr Success
   \<and> row_verdict (example_env example_config [row_A1]
                    (answering (Responds (code_response 404 ''Not Found'' ''0''))))
       (PStr ''A1'') (payload (PStr ''E9'') ''007'') ''Bearer abc'' ''https://cms.example'' initial_state
     = Inr Success"
proof -
  let ?r1 = "code_response 500 ''Internal Server Error'' ''0''"
  let ?r2 = "code_response 200 ''OK'' ''0''"
  let ?r3 = "code_response 404 ''Not Found'' ''0''"
  let ?E1 = "example_env example_config [row_A1] (answering (Responds ?r1))"
  let ?E2 = "example_env example_config [row_A1] (answering (Responds ?r2))"
  let ?E3 = "example_env example_config [row_A1] (answering (Responds ?r3))"
  have n: "network (example_env example_config [row_A1] (answering x)) i q = x" for x i q
    by (simp add: example_env_def answering_def)
  have s: "status_code (code_response c p z) = c" for c p z
    by (simp add: code_response_def)
  have j: "resp_json (code_response c p ''0'') = Inr (PDict [(''code'', PStr ''0'')])" for c p
    by (simp add: code_response_def)
  note t1 = status_handling_differs [of ?E1 initial_state "PStr ''A1''" "PStr ''TW''"
      "''Bearer abc''" "''https://cms.example''" ?r1, THEN conjunct1]
  note t2 = status_handling_differs [of ?E2 initial_state "PStr ''A1''" "PStr ''TW''"
      "''Bearer abc''" "''https://cms.example''" ?r2 "[(''code'', PStr ''0'')]",
      THEN conjunct2, THEN conjunct1]
  note t3 = status_handling_differs [of ?E3 initial_state "PStr ''A1''" _
      "''Bearer abc''" "''https://cms.example''" ?r3 "[(''code'', PStr ''0'')]"
      "payload (PStr ''E9'') ''007''",
      THEN conjunct2, THEN conjunct2]
  have r1: "row_verdict_comment ?E1 (PStr ''A1'') (PStr ''TW'') ''Bearer abc''
              ''https://cms.example'' initial_state = Inr Failure"
    using t1 by (simp add: n s)
  have r2: "row_verdict_comment ?E2 (PStr ''A1'') (PStr ''TW'') ''Bearer abc''
              ''https://cms.example'' initial_state = Inr Success"
    using t2 by (simp add: n s j)
  have r3: "row_verdict ?E3 (PStr ''A1'') (payload (PStr ''E9'') ''007'') ''Bearer abc''
              ''https://cms.example'' initial_state = Inr Success"
    using t3 by (simp add: n j)
  from r1 r2 r3 show ?thesis by blast
qed

text \<open>
  C10 as stated fails: a response with status 300, which is not a 2xx status, and the
  body \<^verbatim>\<open>{"code": "0"}\<close> is classified a success by the comment adder.
\<close>

theorem redirect_code_zero_comment_is_success:
  "status_code (code_response 300 ''Multiple Choices'' ''0'') = 300
   \<and> resp_json (code_response 300 ''Multiple Choices'' ''0'') = Inr (PDict [(''code'', PStr ''0'')])
   \<and> row_verdict_comment (example_env example_config [row_A1]
                    (answering (Responds (code_response 300 ''Multiple Choices'' ''0''))))
       (PStr ''A1'') (PStr ''TW'') ''Bearer abc'' ''https://cms.example'' initial_state
     = Inr Success"
  by (simp add: verdict_eval example_env_def answering_def code_response_def initial_state_def)

section \<open>Loading the configuration\<close>

lemma read_config_body_missing:
  assumes "missing_setting src"
  shows "\<exists>e. read_config_body src = Inl e \<and> \<not> is_FileNotFoundError e"
  using assms
  by (auto simp: missing_setting_def read_config_body_def config_read_def config_get_def
      split: config_source.splits option.splits optval.splits sum.splits)

lemma read_config_body_never_file_not_found:
  "read_config_body src \<noteq> Inl (FileNotFoundError m)"
  by (auto simp: read_config_body_def config_read_def config_get_def
      split: config_source.splits option.splits optval.splits sum.splits)

lemma read_config_never_file_not_found:
  "read_config src \<noteq> Inl (FileNotFoundError m)"
proof (cases "read_config_body src")
  case (Inl e)
  then have "\<not> is_FileNotFoundError e"
    using read_config_body_never_file_not_found [of src] by (cases e) auto
  with Inl show ?thesis by (simp add: read_config_def)
next
  case (Inr c)
  then show ?thesis by (simp add: read_config_def)
qed

lemma read_config_missing:
  assumes "missing_setting src"
  shows "\<exists>m. read_config src = Inl (Exception (''Error reading configuration: '' @ m))"
proof -
  from assms obtain e where "read_config_body src = Inl e" "\<not> is_FileNotFoundError e"
    using read_config_body_missing by blast
  then show ?thesis by (simp add: read_config_def)
qed

lemma main_config_error:
  assumes "read_config (config_file E) = Inl e"
  shows "main E = \<lparr>stdout = [''Error in main process: '' @ str_exn e],
                   logfile = [''Error in main process: '' @ str_exn e],
                   http_calls = []\<rparr>"
  using assms
  by (simp add: main_def log_error_def logging_error_def py_print_def initial_state_def Let_def)

lemma main_comment_config_error:
  assumes "read_config (config_file E) = Inl e"
  shows "main_comment E = \<lparr>stdout = [''Error in main process: '' @ str_exn e],
                   logfile = [], http_calls = []\<rparr>"
  using assms
  by (simp add: main_comment_def py_print_def initial_state_def)

lemma read_config_no_authorization:
  assumes "map_of sections ''Authorization'' = None"
  shows "read_config (Parsed sections) = Inl (Exception
     ''Error reading configuration: Authorization section not found in config file'')"
  using assms by (simp add: read_config_def read_config_body_def config_read_def)

lemma read_config_absent:
  "read_config Absent = Inl (Exception
     ''Error reading configuration: Authorization section not found in config file'')"
  by (simp add: read_config_def read_config_body_def config_read_def)

lemma mentions_authorization:
  "sublist ''Authorization section not found''
     ''Error in main process: Error reading configuration: Authorization section not found in config file''"
proof -
  have "''Error in main process: Error reading configuration: Authorization section not found in config file''
      = ''Error in main process: Error reading configuration: ''
        @ ''Authorization section not found'' @ '' in config file''"
    by simp
  then show ?thesis by (simp only: sublist_appendI)
qed

text \<open>
  C7. When the configuration file has no \<open>[Authorization]\<close> section, the run prints and
  logs one error, whose message mentions "Authorization section not found", and makes
  no HTTP call. More generally, when the file is absent, or a section is absent, or the
  key of a present section is absent, \<^verbatim>\<open>read_config\<close> fails, the run prints and logs
  that one error and nothing else, and makes no HTTP call: no row is processed.
\<close>

theorem configuration_failure_is_fatal:
  "(config_file E = Parsed sections \<and> map_of sections ''Authorization'' = None \<longrightarrow>
      main E = \<lparr>stdout = [''Error in main process: Error reading configuration: Authorization section not found in config file''],
                logfile = [''Error in main process: Error reading configuration: Authorization section not found in config file''],
                http_calls = []\<rparr>
      \<and> sublist ''Authorization section not found'' (last (stdout (main E))))
   \<and> (missing_setting (config_file E) \<longrightarrow>
      (\<exists>m. read_config (config_file E) = Inl (Exception (''Error reading configuration: '' @ m))
         \<and> stdout (main E) = [''Error in main process: Error reading configuration: '' @ m]
         \<and> logfile (main E) = [''Error in main process: Error reading configuration: '' @ m])
      \<and> http_calls (main E) = [])"
proof -
  have p1: "config_file E = Parsed sections \<and> map_of sections ''Authorization'' = None \<longrightarrow>
      main E = \<lparr>stdout = [''Error in main process: Error reading configuration: Authorization section not found in config file''],
                logfile = [''Error in main process: Error reading configuration: Authorization section not found in config file''],
                http_calls = []\<rparr>
      \<and> sublist ''Authorization section not found'' (last (stdout (main E)))"
  proof (intro impI, elim conjE)
    assume c: "config_file E = Parsed sections" and a: "map_of sections ''Authorization'' = None"
    have "read_config (config_file E) = Inl (Exception
        ''Error reading configuration: Authorization section not found in config file'')"
      using read_config_no_authorization [OF a] c by simp
    from main_config_error [OF this]
    have m: "main E = \<lparr>stdout = [''Error in main process: Error reading configuration: Authorization section not found in config file''],
                logfile = [''Error in main process: Error reading configuration: Authorization section not found in config file''],
                http_calls = []\<rparr>"
      by simp
    have l: "last (stdout (main E)) = ''Error in main process: Error reading configuration: Authorization section not found in config file''"
      by (simp add: m)
    have s: "sublist ''Authorization section not found'' (last (stdout (main E)))"
      unfolding l by (rule mentions_authorization)
    from m s
    show "main E = \<lparr>stdout = [''Error in main process: Error reading configuration: Authorization section not found in config file''],
                logfile = [''Error in main process: Error reading configuration: Authorization section not found in config file''],
                http_calls = []\<rparr>
      \<and> sublist ''Authorization section not found'' (last (stdout (main E)))"
      by (rule conjI)
  qed
  have p2: "missing_setting (config_file E) \<longrightarrow>
      (\<exists>m. read_config (config_file E) = Inl (Exception (''Error reading configuration: '' @ m))
         \<and> stdout (main E) = [''Error in main process: Error reading configuration: '' @ m]
         \<and> logfile (main E) = [''Error in main process: Error reading configuration: '' @ m])
      \<and> http_calls (main E) = []"
  proof
    assume "missing_setting (config_file E)"
    then obtain m where r: "read_config (config_file E)
        = Inl (Exception (''Error reading configuration: '' @ m))"
      using read_config_missing by blast
    from main_config_error [OF r]
    have "stdout (main E) = [''Error in main process: Error reading configuration: '' @ m]
        \<and> logfile (main E) = [''Error in main process: Error reading configuration: '' @ m]
        \<and> http_calls (main E) = []"
      by simp
    with r show "(\<exists>m. read_config (config_file E) = Inl (Exception (''Error reading configuration: '' @ m))
         \<and> stdout (main E) = [''Error in main process: Error reading configuration: '' @ m]
         \<and> logfile (main E) = [''Error in main process: Error reading configuration: '' @ m])
      \<and> http_calls (main E) = []"
      by blast
  qed
  from p1 p2 show ?thesis by blast
qed


theorem configuration_failure_is_fatal_witness:
  "main (example_env (Parsed [(''API'', [(''base_url'', Value ''https://cms.example'')])]) [row_A1]
          (answering (Responds (code_response 200 ''OK'' ''0''))))
     = \<lparr>stdout = [''Error in main process: Error reading configuration: Authorization section not found in config file''],
        logfile = [''Error in main process: Error reading configuration: Authorization section not found in config file''],
        http_calls = []\<rparr>
   \<and> http_calls (main (example_env (Parsed [(''Authorization'', []), (''API'', [(''base_url'', Value ''https://cms.example'')])]) [row_A1]
          (answering (Responds (code_response 200 ''OK'' ''0''))))) = []
   \<and> read_config (Parsed [(''Authorization'', []), (''API'', [(''base_url'', Value ''https://cms.example'')])])
     = Inl (Exception ''Error reading configuration: jwt_token key not found in Authorization section'')"
proof -
  let ?net = "answering (Responds (code_response 200 ''OK'' ''0''))"
  let ?s1 = "[(''API'', [(''base_url'', Value ''https://cms.example'')])]"
  let ?s2 = "[(''Authorization'', []), (''API'', [(''base_url'', Value ''https://cms.example'')])]"
  let ?E1 = "example_env (Parsed ?s1) [row_A1] ?net"
  let ?E2 = "example_env (Parsed ?s2) [row_A1] ?net"
  have c1: "config_file ?E1 = Parsed ?s1" by (simp add: example_env_def)
  have a1: "map_of ?s1 ''Authorization'' = None" by simp
  have m2: "missing_setting (config_file ?E2)"
    by (simp add: example_env_def missing_setting_def)
  note t1 = configuration_failure_is_fatal [of ?E1 ?s1, THEN conjunct1]
  note t2 = configuration_failure_is_fatal [of ?E2, THEN conjunct2]
  have r1: "main ?E1
     = \<lparr>stdout = [''Error in main process: Error reading configuration: Authorization section not found in config file''],
        logfile = [''Error in main process: Error reading configuration: Authorization section not found in config file''],
        http_calls = []\<rparr>"
    using t1 c1 a1 by blast
  have r2: "http_calls (main ?E2) = []"
    using t2 m2 by blast
  have r3: "read_config (Parsed ?s2)
     = Inl (Exception ''Error reading configuration: jwt_token key not found in Authorization section'')"
    by (simp add: config_eval)
  from r1 r2 r3 show ?thesis by blast
qed

lemma no_missing_file_message:
  "\<not> sublist ''Config file not found''
       ''Error in main process: Error reading configuration: Authorization section not found in config file''"
  by (simp add: sublist_Cons_right)

text \<open>
  C9. With the configuration file absent, \<^verbatim>\<open>read_config\<close> fails with "Authorization
  section not found in config file", wrapped as an error reading the configuration.
  The body of its \<^verbatim>\<open>try\<close> never raises a \<^verbatim>\<open>FileNotFoundError\<close>, so that handler is
  never entered and \<^verbatim>\<open>read_config\<close> never raises one. Both scripts end with that one
  error and no HTTP call, and the error reported does not mention a missing file.
\<close>

theorem absent_configuration_file:
  "read_config Absent
     = Inl (Exception ''Error reading configuration: Authorization section not found in config file'')
   \<and> read_config_body src \<noteq> Inl (FileNotFoundError m)
   \<and> read_config src \<noteq> Inl (FileNotFoundError m)
   \<and> (config_file E = Absent \<longrightarrow>
        main E = \<lparr>stdout = [''Error in main process: Error reading configuration: Authorization section not found in config file''],
                  logfile = [''Error in main process: Error reading configuration: Authorization section not found in config file''],
                  http_calls = []\<rparr>
        \<and> main_comment E = \<lparr>stdout = [''Error in main process: Error reading configuration: Authorization section not found in config file''],
                  logfile = [], http_calls = []\<rparr>)
   \<and> \<not> sublist ''Config file not found''
         ''Error in main process: Error reading configuration: Authorization section not found in config file''"
proof -
  have p4: "config_file E = Absent \<longrightarrow>
        main E = \<lparr>stdout = [''Error in main process: Error reading configuration: Authorization section not found in config file''],
                  logfile = [''Error in main process: Error reading configuration: Authorization section not found in config file''],
                  http_calls = []\<rparr>
        \<and> main_comment E = \<lparr>stdout = [''Error in main process: Error reading configuration: Authorization section not found in config file''],
                  logfile = [], http_calls = []\<rparr>"
  proof
    assume "config_file E = Absent"
    then have r: "read_config (config_file E) = Inl (Exception
        ''Error reading configuration: Authorization section not found in config file'')"
      by (simp add: read_config_absent)
    from main_config_error [OF r] main_comment_config_error [OF r]
    show "main E = \<lparr>stdout = [''Error in main process: Error reading configuration: Authorization section not found in config file''],
                  logfile = [''Error in main process: Error reading configuration: Authorization section not found in config file''],
                  http_calls = []\<rparr>
        \<and> main_comment E = \<lparr>stdout = [''Error in main process: Error reading configuration: Authorization section not found in config file''],
                  logfile = [], http_calls = []\<rparr>"
      by simp
  qed
  from read_config_absent read_config_body_never_file_not_found [of src m]
    read_config_never_file_not_found [of src m] p4 no_missing_file_message
  show ?thesis by blast
qed

theorem absent_configuration_file_witness:
  "main (example_env Absent [row_A1] (answering (Responds (code_response 200 ''OK'' ''0''))))
     = \<lparr>stdout = [''Error in main process: Error reading configuration: Authorization section not found in config file''],
        logfile = [''Error in main process: Error reading configuration: Authorization section not found in config file''],
        http_calls = []\<rparr>
   \<and> main_comment (example_env Absent [row_A1] (answering (Responds (code_response 200 ''OK'' ''0''))))
     = \<lparr>stdout = [''Error in main process: Error reading configuration: Authorization section not found in config file''],
        logfile = [], http_calls = []\<rparr>"
proof -
  let ?E = "example_env Absent [row_A1] (answering (Responds (code_response 200 ''OK'' ''0'')))"
  have c: "config_file ?E = Absent" by (simp add: example_env_def)
  from absent_configuration_file [of _ _ ?E] c show ?thesis by blast
qed

end
